theory Spec2Isabelle
  imports Main "HOL-Library.AList" "HOL-Library.List_Lexorder" "HOL-Library.Char_ord"
begin

section \<open>Python built-ins used by the command layer\<close>

text \<open>
  Strings are lists of 8-bit characters; the model covers ASCII input. The white space
  of \<^verbatim>\<open>str.split()\<close> is the ASCII white space of Python strings: tab, line feed,
  vertical tab, form feed, carriage return, the four separators 0x1C..0x1F and the
  blank.
\<close>

definition isspace :: "char \<Rightarrow> bool" where
  "isspace c = (c \<in> set [CHR 0x09, CHR 0x0A, CHR 0x0B, CHR 0x0C, CHR 0x0D,
                           CHR 0x1C, CHR 0x1D, CHR 0x1E, CHR 0x1F, CHR 0x20])"

text \<open>\<^verbatim>\<open>s.split()\<close>: the maximal runs of characters that are not white space.\<close>

function str_split :: "string \<Rightarrow> string list" where
  "str_split s =
     (case dropWhile isspace s of
        [] \<Rightarrow> []
      | c # cs \<Rightarrow> (c # takeWhile (\<lambda>d. \<not> isspace d) cs)
                  # str_split (dropWhile (\<lambda>d. \<not> isspace d) cs))"
  by pat_completeness auto
termination
proof (relation "measure length")
  show "wf (measure length)" by simp
next
  fix s :: string and c cs
  assume eq: "dropWhile isspace s = c # cs"
  have "length (dropWhile (\<lambda>d. \<not> isspace d) cs) \<le> length cs"
    by (rule length_dropWhile_le)
  also have "length cs < length (dropWhile isspace s)"
    by (simp add: eq)
  also have "\<dots> \<le> length s"
    by (rule length_dropWhile_le)
  finally show "(dropWhile (\<lambda>d. \<not> isspace d) cs, s) \<in> measure length"
    by simp
qed

text \<open>\<^verbatim>\<open>sep.join(xs)\<close>.\<close>

fun join :: "string \<Rightarrow> string list \<Rightarrow> string" where
  "join sep [] = []"
| "join sep [x] = x"
| "join sep (x # y # ys) = x @ sep @ join sep (y # ys)"

text \<open>\<^verbatim>\<open>s.casefold()\<close> and \<^verbatim>\<open>s.lower()\<close> on ASCII text: the capital letters are lowered.\<close>

definition lower_char :: "char \<Rightarrow> char" where
  "lower_char c = (if CHR ''A'' \<le> c \<and> c \<le> CHR ''Z'' then char_of (of_char c + (32::nat)) else c)"

definition casefold :: "string \<Rightarrow> string" where
  "casefold s = map lower_char s"

text \<open>\<^verbatim>\<open>str(n)\<close> of a length: the decimal digits of a natural number.\<close>

definition digit_char :: "nat \<Rightarrow> char" where
  "digit_char d = char_of (48 + d)"

function str_nat :: "nat \<Rightarrow> string" where
  "str_nat n = (if n < 10 then [digit_char n] else str_nat (n div 10) @ [digit_char (n mod 10)])"
  by pat_completeness auto
termination
  by (relation "measure id") auto

text \<open>
  \<^verbatim>\<open>int(s)\<close> of an ASCII string, in base ten. The conversion skips leading white space, reads an
  optional sign, then the decimal digits, where single underscores may stand between
  two digits, and allows only white space after them. Its white space is narrower
  than that of \<^verbatim>\<open>str.split()\<close>: tab, line feed, vertical tab, form feed, carriage return
  and the blank; the separators 0x1C..0x1F are not skipped. Every other string is a
  \<^verbatim>\<open>ValueError\<close>, here \<open>None\<close>.
\<close>

definition int_space :: "char \<Rightarrow> bool" where
  "int_space c = (c \<in> set [CHR 0x09, CHR 0x0A, CHR 0x0B, CHR 0x0C, CHR 0x0D, CHR 0x20])"

definition isdigit :: "char \<Rightarrow> bool" where
  "isdigit c = (CHR ''0'' \<le> c \<and> c \<le> CHR ''9'')"

definition digit_val :: "char \<Rightarrow> nat" where
  "digit_val c = of_char c - 48"

text \<open>
  The digits and underscores of the literal: \<open>prev\<close> says that the character before
  was a digit, \<open>acc\<close> is the value read so far and \<open>digits\<close> the number of digits read
  (underscores are not counted). An underscore at the start, at the end or after
  another underscore is refused, and so is the empty literal.
\<close>

fun int_body :: "string \<Rightarrow> bool \<Rightarrow> nat \<Rightarrow> nat \<Rightarrow> (nat \<times> nat) option" where
  "int_body [] prev acc digits = (if prev then Some (acc, digits) else None)"
| "int_body (c # cs) prev acc digits =
     (if isdigit c then int_body cs True (10 * acc + digit_val c) (digits + 1)
      else if c = CHR ''_'' \<and> prev \<and> cs \<noteq> [] then int_body cs False acc digits
      else None)"

text \<open>
  \<open>max_str_digits\<close> is the interpreter's limit on the digits of a converted string
  (\<^verbatim>\<open>sys.get_int_max_str_digits()\<close>: 4300 by default, 0 where there is no limit). A
  literal of more than 640 digits that exceeds a positive limit is a \<^verbatim>\<open>ValueError\<close> too.
\<close>

definition py_int :: "nat \<Rightarrow> string \<Rightarrow> int option" where
  "py_int max_str_digits s =
     (let t = dropWhile int_space s;
          negative = (case t of [] \<Rightarrow> False | c # cs \<Rightarrow> c = CHR ''-'');
          u = (case t of
                 [] \<Rightarrow> []
               | c # cs \<Rightarrow> if c = CHR ''+'' \<or> c = CHR ''-'' then cs else t);
          body = rev (dropWhile int_space (rev u))
      in case int_body body False 0 0 of
           None \<Rightarrow> None
         | Some (v, digits) \<Rightarrow>
             if 640 < digits \<and> 0 < max_str_digits \<and> max_str_digits < digits then None
             else Some (if negative then - int v else int v))"

text \<open>\<^verbatim>\<open>sub in s\<close> on strings: \<open>sub\<close> occurs in \<open>s\<close> as a contiguous run.\<close>

fun contains :: "string \<Rightarrow> string \<Rightarrow> bool" where
  "contains sub [] = (sub = [])"
| "contains sub (c # cs) = (take (length sub) (c # cs) = sub \<or> contains sub cs)"

section \<open>Exceptions and the \<open>input_error\<close> decorator\<close>

text \<open>
  An exception is a value; its argument is the text \<^verbatim>\<open>str(e)\<close> gives. The first three are
  the classes of the bot (lines 19 to 32); the others are the built-in exceptions the
  handlers can meet.
\<close>

datatype exn =
    CommandNotSupported string
  | CliHelperSigStop string
  | CommandOperationalError string
  | ValueError string
  | KeyError string
  | IndexError string
  | TypeError string

fun exn_str :: "exn \<Rightarrow> string" where
  "exn_str (CommandNotSupported m) = m"
| "exn_str (CliHelperSigStop m) = m"
| "exn_str (CommandOperationalError m) = m"
| "exn_str (ValueError m) = m"
| "exn_str (KeyError m) = m"
| "exn_str (IndexError m) = m"
| "exn_str (TypeError m) = m"

text \<open>The classes named by the \<^verbatim>\<open>except\<close> clause of \<^verbatim>\<open>input_error\<close> (lines 41 to 46).\<close>

fun caught :: "exn \<Rightarrow> bool" where
  "caught (CommandOperationalError m) = True"
| "caught (CommandNotSupported m) = True"
| "caught (ValueError m) = True"
| "caught (KeyError m) = True"
| "caught e = False"

text \<open>\<^verbatim>\<open>except KeyError as e: raise CommandOperationalError(...) from e\<close>.\<close>

fun on_KeyError :: "exn \<Rightarrow> exn \<Rightarrow> exn" where
  "on_KeyError (KeyError m) e' = e'"
| "on_KeyError e e' = e"

section \<open>The data model\<close>

text \<open>
  The module \<^verbatim>\<open>source.datamodels\<close> (\<^verbatim>\<open>Record\<close>, \<^verbatim>\<open>Note\<close>, \<^verbatim>\<open>AddressBook\<close>, \<^verbatim>\<open>NotesBook\<close>) is
  imported by the bot (lines 10 to 15) and is not among the sources. Every definition of
  this section is modelled from the specification, and says from which part.
\<close>

text \<open>
  Modelled from the spec: a calendar date without a time component (section 3,
  \<^verbatim>\<open>birthday\<close>), the value of the missing module's birthday field.
\<close>

record date =
  year :: int
  month :: int
  day :: int

text \<open>
  Modelled from the spec: the class \<^verbatim>\<open>Record\<close> of the missing module (section 3): the
  name, the ordered phones, and the optional birthday, email and address.
\<close>

record Record =
  name :: string
  phones :: "string list"
  birthday :: "date option"
  email :: "string option"
  address :: "string option"

text \<open>
  Modelled from the spec: the class \<^verbatim>\<open>Note\<close> of the missing module (section 3): the name,
  the project role, the text of the tasks and the ordered hobbies.
\<close>

record Note =
  note_name :: string
  project_role :: string
  project_tasks :: string
  hobbies :: "string list"

text \<open>
  Modelled from the spec: the class \<^verbatim>\<open>AddressBook\<close> of the missing module (section 3), a
  mapping from a contact's name to its record, kept in insertion order.
\<close>

type_synonym AddressBook = "(string \<times> Record) list"

text \<open>
  Modelled from the spec: the class \<^verbatim>\<open>NotesBook\<close> of the missing module (section 3), a
  mapping from a note's name to the note, kept in insertion order.
\<close>

type_synonym NotesBook = "(string \<times> Note) list"

text \<open>
  Modelled from the spec: what the specification leaves to an external contract is a
  parameter of the model. The validators of section 4.1 give the message of their
  \<^verbatim>\<open>ValidationError\<close> (\<open>Inl\<close>) or the validated value (\<open>Inr\<close>); the textual
  renderings of section 4.2 and 4.3 (\<^verbatim>\<open>str(record)\<close>, \<^verbatim>\<open>str(note)\<close>, a date, the
  birthday field), the text of a \<^verbatim>\<open>NotFoundError\<close> for an operation and a key, and the
  text of the error for an empty address are functions of the environment. \<open>doc\<close> is
  the head of a handler's docstring (what stands before \<^verbatim>\<open>Returns:\<close>, stripped),
  \<open>today\<close> is the date of the call, and \<open>int_max_str_digits\<close> is the interpreter's
  limit on the digits that \<^verbatim>\<open>int\<close> converts.
\<close>

record env =
  validate_phone :: "string \<Rightarrow> string + string"
  validate_email :: "string \<Rightarrow> string + string"
  parse_date :: "string \<Rightarrow> string + date"
  str_record :: "Record \<Rightarrow> string"
  str_note :: "Note \<Rightarrow> string"
  str_date :: "date \<Rightarrow> string"
  str_birthday :: "date option \<Rightarrow> string"
  not_found :: "string \<Rightarrow> string \<Rightarrow> string"
  empty_address :: string
  doc :: "string \<Rightarrow> string"
  today :: date
  int_max_str_digits :: nat

subsection \<open>Record\<close>

text \<open>
  In the operations below \<^verbatim>\<open>ValidationError\<close> is a \<^verbatim>\<open>ValueError\<close> (the docstrings of the
  handlers, line 169, say so) and \<^verbatim>\<open>NotFoundError\<close> is a \<^verbatim>\<open>KeyError\<close> (the handlers
  catch it as such, line 181).
\<close>

text \<open>
  Modelled from the spec: the validation of the phones of a new record (section 3,
  \<^verbatim>\<open>phones\<close>: validated phone values). The validator is applied to every phone, in
  order; the first failure is the error.
\<close>

fun validate_all :: "(string \<Rightarrow> string + string) \<Rightarrow> string list \<Rightarrow> string + string list" where
  "validate_all v [] = Inr []"
| "validate_all v (p # ps) =
     (case v p of
        Inl m \<Rightarrow> Inl m
      | Inr q \<Rightarrow> (case validate_all v ps of Inl m \<Rightarrow> Inl m | Inr qs \<Rightarrow> Inr (q # qs)))"

text \<open>
  Modelled from the spec: the constructor \<^verbatim>\<open>Record(name_=..., phones=[...])\<close> of the
  missing module. The phones are validated; birthday, email and address are absent by
  default.
\<close>

definition new_Record :: "env \<Rightarrow> string \<Rightarrow> string list \<Rightarrow> exn + Record" where
  "new_Record x nm phs =
     (case validate_all (validate_phone x) phs of
        Inl m \<Rightarrow> Inl (ValueError m)
      | Inr vs \<Rightarrow> Inr \<lparr>name = nm, phones = vs, birthday = None, email = None, address = None\<rparr>)"

text \<open>
  Modelled from the spec: \<^verbatim>\<open>Record.add_birthday\<close> (section 4.2) parses the date and
  overwrites the birthday; a bad format is a \<^verbatim>\<open>ValidationError\<close>.
\<close>

definition Record_add_birthday :: "env \<Rightarrow> Record \<Rightarrow> string \<Rightarrow> exn + Record" where
  "Record_add_birthday x r date_str =
     (case parse_date x date_str of
        Inl m \<Rightarrow> Inl (ValueError m)
      | Inr d \<Rightarrow> Inr (r\<lparr>birthday := Some d\<rparr>))"

text \<open>
  Modelled from the spec: \<^verbatim>\<open>Record.update_birthday\<close> (section 4.2) has the contract of
  \<^verbatim>\<open>add_birthday\<close>.
\<close>

definition Record_update_birthday :: "env \<Rightarrow> Record \<Rightarrow> string \<Rightarrow> exn + Record" where
  "Record_update_birthday x r date_str = Record_add_birthday x r date_str"

text \<open>
  Modelled from the spec: \<^verbatim>\<open>Record.remove_birthday\<close> (section 4.2) clears the birthday and
  does not fail when it is already absent.
\<close>

definition Record_remove_birthday :: "Record \<Rightarrow> exn + Record" where
  "Record_remove_birthday r = Inr (r\<lparr>birthday := None\<rparr>)"

text \<open>
  Modelled from the spec: \<^verbatim>\<open>Record.add_email\<close> (section 4.2) validates the email and
  overwrites the field.
\<close>

definition Record_add_email :: "env \<Rightarrow> Record \<Rightarrow> string \<Rightarrow> exn + Record" where
  "Record_add_email x r email_str =
     (case validate_email x email_str of
        Inl m \<Rightarrow> Inl (ValueError m)
      | Inr v \<Rightarrow> Inr (r\<lparr>email := Some v\<rparr>))"

text \<open>
  Modelled from the spec: \<^verbatim>\<open>Record.update_email\<close> (section 4.2) has the contract of
  \<^verbatim>\<open>add_email\<close>.
\<close>

definition Record_update_email :: "env \<Rightarrow> Record \<Rightarrow> string \<Rightarrow> exn + Record" where
  "Record_update_email x r email_str = Record_add_email x r email_str"

text \<open>
  Modelled from the spec: \<^verbatim>\<open>Record.remove_email\<close> (section 4.2) clears the email and does
  not fail when it is already absent.
\<close>

definition Record_remove_email :: "Record \<Rightarrow> exn + Record" where
  "Record_remove_email r = Inr (r\<lparr>email := None\<rparr>)"

text \<open>
  Modelled from the spec: \<^verbatim>\<open>Record.add_address\<close> (section 4.2) takes free text and
  rejects only the empty string.
\<close>

definition Record_add_address :: "env \<Rightarrow> Record \<Rightarrow> string \<Rightarrow> exn + Record" where
  "Record_add_address x r address_str =
     (if address_str = [] then Inl (ValueError (empty_address x))
      else Inr (r\<lparr>address := Some address_str\<rparr>))"

text \<open>
  Modelled from the spec: \<^verbatim>\<open>Record.update_address\<close> (section 4.2) has the contract of
  \<^verbatim>\<open>add_address\<close>.
\<close>

definition Record_update_address :: "env \<Rightarrow> Record \<Rightarrow> string \<Rightarrow> exn + Record" where
  "Record_update_address x r address_str = Record_add_address x r address_str"

text \<open>
  Modelled from the spec: \<^verbatim>\<open>Record.remove_address\<close> (section 4.2) clears the address and
  does not fail when it is already absent.
\<close>

definition Record_remove_address :: "Record \<Rightarrow> exn + Record" where
  "Record_remove_address r = Inr (r\<lparr>address := None\<rparr>)"

text \<open>
  Modelled from the spec: the replacement that \<^verbatim>\<open>edit_phone\<close> and \<^verbatim>\<open>edit_hobby\<close> make
  (sections 4.2 and 4.3): the first exact match of a list is replaced in place.
\<close>

fun replace_first :: "'a \<Rightarrow> 'a \<Rightarrow> 'a list \<Rightarrow> 'a list" where
  "replace_first old new [] = []"
| "replace_first old new (y # ys) = (if y = old then new # ys else y # replace_first old new ys)"

text \<open>
  Modelled from the spec: \<^verbatim>\<open>Record.edit_phone\<close> (section 4.2) fails with \<^verbatim>\<open>NotFoundError\<close>
  when the old value is not among the phones, validates the new value, and replaces in
  place, keeping the position.
\<close>

definition Record_edit_phone :: "env \<Rightarrow> Record \<Rightarrow> string \<Rightarrow> string \<Rightarrow> exn + Record" where
  "Record_edit_phone x r old_value new_value =
     (if old_value \<notin> set (phones r) then Inl (KeyError (not_found x ''edit_phone'' old_value))
      else case validate_phone x new_value of
             Inl m \<Rightarrow> Inl (ValueError m)
           | Inr v \<Rightarrow> Inr (r\<lparr>phones := replace_first old_value v (phones r)\<rparr>))"

text \<open>
  Modelled from the spec: \<^verbatim>\<open>Record.remove_phone\<close> (section 4.2) fails with
  \<^verbatim>\<open>NotFoundError\<close> when the value is absent and removes the first match. Section 4.2
  puts no condition on the number of phones that remain, while section 3 says of the
  phones \<^verbatim>\<open>at least the one supplied at creation\<close>; the model follows the words of
  section 4.2.
\<close>

definition Record_remove_phone :: "env \<Rightarrow> Record \<Rightarrow> string \<Rightarrow> exn + Record" where
  "Record_remove_phone x r v =
     (if v \<notin> set (phones r) then Inl (KeyError (not_found x ''remove_phone'' v))
      else Inr (r\<lparr>phones := remove1 v (phones r)\<rparr>))"

subsection \<open>Note\<close>

text \<open>
  Modelled from the spec: the constructor \<^verbatim>\<open>Note(name_=..., project_role=...)\<close> of the
  missing module (section 3): no tasks and no hobbies at first.
\<close>

definition new_Note :: "string \<Rightarrow> string \<Rightarrow> Note" where
  "new_Note nm role = \<lparr>note_name = nm, project_role = role, project_tasks = [], hobbies = []\<rparr>"

text \<open>
  Modelled from the spec: \<^verbatim>\<open>Note.add_project_tasks\<close> (section 4.3) appends the text to
  the tasks, after a single space when there is prior content.
\<close>

definition Note_add_project_tasks :: "Note \<Rightarrow> string \<Rightarrow> Note" where
  "Note_add_project_tasks n txt =
     n\<lparr>project_tasks := (if project_tasks n = [] then txt else project_tasks n @ '' '' @ txt)\<rparr>"

text \<open>
  Modelled from the spec: \<^verbatim>\<open>Note.add_hobby\<close> (section 4.3) appends the text to the
  hobbies as one new entry.
\<close>

definition Note_add_hobby :: "Note \<Rightarrow> string \<Rightarrow> Note" where
  "Note_add_hobby n txt = n\<lparr>hobbies := hobbies n @ [txt]\<rparr>"

text \<open>
  Modelled from the spec: \<^verbatim>\<open>Note.edit_hobby\<close> (section 4.3) fails with \<^verbatim>\<open>NotFoundError\<close>
  when the hobby is not among the hobbies and replaces the first exact match.
\<close>

definition Note_edit_hobby :: "env \<Rightarrow> Note \<Rightarrow> string \<Rightarrow> string \<Rightarrow> exn + Note" where
  "Note_edit_hobby x n hobby new_hobby =
     (if hobby \<notin> set (hobbies n) then Inl (KeyError (not_found x ''edit_hobby'' hobby))
      else Inr (n\<lparr>hobbies := replace_first hobby new_hobby (hobbies n)\<rparr>))"

subsection \<open>AddressBook and NotesBook\<close>

text \<open>
  Modelled from the spec: \<^verbatim>\<open>AddressBook.add_record\<close> (section 4.4) returns \<^verbatim>\<open>None\<close> and
  changes nothing when the name is already a key, otherwise inserts the record and
  returns it. The book is returned with the result.
\<close>

definition AddressBook_add_record :: "AddressBook \<Rightarrow> Record \<Rightarrow> Record option \<times> AddressBook" where
  "AddressBook_add_record book r =
     (if name r \<in> fst ` set book then (None, book) else (Some r, book @ [(name r, r)]))"

text \<open>
  Modelled from the spec: \<^verbatim>\<open>AddressBook.find\<close> (section 4.4) gives the record of the key
  and fails with \<^verbatim>\<open>NotFoundError\<close> when there is no such key.
\<close>

definition AddressBook_find :: "env \<Rightarrow> AddressBook \<Rightarrow> string \<Rightarrow> exn + Record" where
  "AddressBook_find x book n =
     (case map_of book n of
        None \<Rightarrow> Inl (KeyError (not_found x ''find'' n))
      | Some r \<Rightarrow> Inr r)"

text \<open>
  Modelled from the spec: \<^verbatim>\<open>AddressBook.delete\<close> (section 4.4) removes the key and fails
  with \<^verbatim>\<open>NotFoundError\<close> when it is absent.
\<close>

definition AddressBook_delete :: "env \<Rightarrow> AddressBook \<Rightarrow> string \<Rightarrow> exn + AddressBook" where
  "AddressBook_delete x book n =
     (if n \<in> fst ` set book then Inr (AList.delete n book)
      else Inl (KeyError (not_found x ''delete'' n)))"

text \<open>
  Modelled from the spec: \<^verbatim>\<open>AddressBook.search\<close> (section 4.4) is a case-insensitive
  substring match on each record's rendering; the matches come in collection order.
\<close>

definition AddressBook_search :: "env \<Rightarrow> AddressBook \<Rightarrow> string \<Rightarrow> Record list" where
  "AddressBook_search x book query =
     filter (\<lambda>r. contains (casefold query) (casefold (str_record x r))) (map snd book)"

text \<open>
  Modelled from the spec: \<^verbatim>\<open>AddressBook.values\<close>, the records in insertion order (section
  3, the deterministic listing of all records).
\<close>

definition AddressBook_values :: "AddressBook \<Rightarrow> Record list" where
  "AddressBook_values book = map snd book"

text \<open>
  Modelled from the spec: \<^verbatim>\<open>AddressBook.get_all_names\<close> (section 4.4), all keys in
  insertion order.
\<close>

definition get_all_names :: "AddressBook \<Rightarrow> string list" where
  "get_all_names book = map fst book"

text \<open>
  Modelled from the spec: \<^verbatim>\<open>NotesBook.add_note\<close> (section 4.5) has the sentinel pattern of
  \<^verbatim>\<open>add_record\<close>.
\<close>

definition NotesBook_add_note :: "NotesBook \<Rightarrow> Note \<Rightarrow> Note option \<times> NotesBook" where
  "NotesBook_add_note book n =
     (if note_name n \<in> fst ` set book then (None, book) else (Some n, book @ [(note_name n, n)]))"

text \<open>
  Modelled from the spec: \<^verbatim>\<open>NotesBook.find\<close> (section 4.5) fails with \<^verbatim>\<open>NotFoundError\<close>
  when the key is absent.
\<close>

definition NotesBook_find :: "env \<Rightarrow> NotesBook \<Rightarrow> string \<Rightarrow> exn + Note" where
  "NotesBook_find x book n =
     (case map_of book n of
        None \<Rightarrow> Inl (KeyError (not_found x ''find'' n))
      | Some r \<Rightarrow> Inr r)"

text \<open>
  Modelled from the spec: \<^verbatim>\<open>NotesBook.delete\<close> (section 4.5) fails with \<^verbatim>\<open>NotFoundError\<close>
  when the key is absent.
\<close>

definition NotesBook_delete :: "env \<Rightarrow> NotesBook \<Rightarrow> string \<Rightarrow> exn + NotesBook" where
  "NotesBook_delete x book n =
     (if n \<in> fst ` set book then Inr (AList.delete n book)
      else Inl (KeyError (not_found x ''delete'' n)))"

text \<open>
  Modelled from the spec: \<^verbatim>\<open>NotesBook.find_project_role\<close> (section 4.5), all notes whose
  role is exactly the given one.
\<close>

definition NotesBook_find_project_role :: "NotesBook \<Rightarrow> string \<Rightarrow> Note list" where
  "NotesBook_find_project_role book role = filter (\<lambda>n. project_role n = role) (map snd book)"

text \<open>
  Modelled from the spec: \<^verbatim>\<open>NotesBook.find_hobby\<close> (section 4.5), all notes that have the
  hobby among their hobbies.
\<close>

definition NotesBook_find_hobby :: "NotesBook \<Rightarrow> string \<Rightarrow> Note list" where
  "NotesBook_find_hobby book hobby = filter (\<lambda>n. hobby \<in> set (hobbies n)) (map snd book)"

text \<open>
  Modelled from the spec: \<^verbatim>\<open>NotesBook.values\<close> (section 4.5), all notes in insertion
  order.
\<close>

definition NotesBook_values :: "NotesBook \<Rightarrow> Note list" where
  "NotesBook_values book = map snd book"

subsection \<open>The calendar and the birthday window\<close>

text \<open>
  The dates are those of the proleptic Gregorian calendar, as Python's
  \<^verbatim>\<open>datetime.date\<close> has them; the years have no upper bound here.
\<close>

text \<open>Modelled from the spec: the leap years (section 4.1, \<^verbatim>\<open>parse_date\<close>: non-leap Feb 29).\<close>

definition is_leap :: "int \<Rightarrow> bool" where
  "is_leap y = (y mod 4 = 0 \<and> (y mod 100 \<noteq> 0 \<or> y mod 400 = 0))"

text \<open>Modelled from the spec: the number of days of a month (section 4.1, day 32).\<close>

definition days_in_month :: "int \<Rightarrow> int \<Rightarrow> int" where
  "days_in_month y m =
     (if m = 2 then (if is_leap y then 29 else 28)
      else if m = 4 \<or> m = 6 \<or> m = 9 \<or> m = 11 then 30 else 31)"

text \<open>
  Modelled from the spec: the dates that exist (section 4.1: components out of range are
  rejected).
\<close>

definition valid_date :: "date \<Rightarrow> bool" where
  "valid_date d =
     (1 \<le> year d \<and> 1 \<le> month d \<and> month d \<le> 12 \<and>
      1 \<le> day d \<and> day d \<le> days_in_month (year d) (month d))"

text \<open>
  Modelled from the spec: the days before 1 January of a year, counted from 0001-01-01;
  with the next two definitions it orders the dates for the window of section 4.4.
\<close>

definition days_before_year :: "int \<Rightarrow> int" where
  "days_before_year y = (y - 1) * 365 + (y - 1) div 4 - (y - 1) div 100 + (y - 1) div 400"

text \<open>Modelled from the spec: the days of a year before the first day of a month.\<close>

definition days_before_month :: "int \<Rightarrow> int \<Rightarrow> int" where
  "days_before_month y m = sum_list (map (days_in_month y) [1..m - 1])"

text \<open>
  Modelled from the spec: the number of a day, 0001-01-01 being day 1, so that
  \<^verbatim>\<open>today + n days\<close> (section 4.4) is an addition.
\<close>

definition toordinal :: "date \<Rightarrow> int" where
  "toordinal d = days_before_year (year d) + days_before_month (year d) (month d) + day d"

text \<open>
  Modelled from the spec: the day of the week (section 4.4, Saturday or Sunday): 0 on a
  Monday, 5 on a Saturday, 6 on a Sunday; day 1 was a Monday.
\<close>

definition weekday :: "date \<Rightarrow> int" where
  "weekday d = (toordinal d + 6) mod 7"

text \<open>Modelled from the spec: the day after a date, by which a date is shifted forward.\<close>

definition next_day :: "date \<Rightarrow> date" where
  "next_day d =
     (if day d < days_in_month (year d) (month d) then d\<lparr>day := day d + 1\<rparr>
      else if month d < 12 then d\<lparr>month := month d + 1, day := 1\<rparr>
      else \<lparr>year = year d + 1, month = 1, day = 1\<rparr>)"

text \<open>
  Modelled from the spec: the occurrence of a birthday's month and day (section 4.4) is
  this year's, or next year's when that month and day have already passed this year.
  The specification does not say what the occurrence of 29 February is in a year that
  has none; here such a birthday has no occurrence in that year (\<open>None\<close>) and its record
  is not kept.
\<close>

definition occurrence :: "date \<Rightarrow> date \<Rightarrow> date option" where
  "occurrence tdy bd =
     (let passed = (month bd < month tdy \<or> (month bd = month tdy \<and> day bd < day tdy));
          occ = \<lparr>year = (if passed then year tdy + 1 else year tdy), month = month bd, day = day bd\<rparr>
      in if valid_date occ then Some occ else None)"

text \<open>
  Modelled from the spec: the inclusive window \<^verbatim>\<open>[today, today + n days]\<close> of section
  4.4.
\<close>

definition in_window :: "date \<Rightarrow> int \<Rightarrow> date \<Rightarrow> bool" where
  "in_window tdy n occ = (toordinal tdy \<le> toordinal occ \<and> toordinal occ \<le> toordinal tdy + n)"

text \<open>
  Modelled from the spec: the congratulation date (section 4.4): an occurrence on a
  Saturday or a Sunday moves to the following Monday, a weekday occurrence stays.
\<close>

definition congratulation_date :: "date \<Rightarrow> date" where
  "congratulation_date occ =
     (if weekday occ = 5 then next_day (next_day occ)
      else if weekday occ = 6 then next_day occ
      else occ)"

text \<open>
  Modelled from the spec: the result of \<^verbatim>\<open>get_birthdays_per_days\<close> (section 4.4), a
  mapping from a congratulation date to the records of that date.
\<close>

type_synonym groups = "(date \<times> Record list) list"

text \<open>
  Modelled from the spec: the grouping of section 4.4. One record is put under its
  date: each group keeps the insertion order, the groups stand by ascending date.
\<close>

fun add_to_group :: "date \<Rightarrow> Record \<Rightarrow> groups \<Rightarrow> groups" where
  "add_to_group d r [] = [(d, [r])]"
| "add_to_group d r ((d', rs) # gs) =
     (if d = d' then (d', rs @ [r]) # gs
      else if toordinal d < toordinal d' then (d, [r]) # (d', rs) # gs
      else (d', rs) # add_to_group d r gs)"

text \<open>
  Modelled from the spec: the pass of \<^verbatim>\<open>get_birthdays_per_days\<close> over the records in
  insertion order (section 4.4). A record without a birthday is skipped; so is a
  record whose occurrence lies outside the window, which is empty when \<open>n\<close> is
  negative.
\<close>

fun collect_birthdays :: "date \<Rightarrow> int \<Rightarrow> Record list \<Rightarrow> groups \<Rightarrow> groups" where
  "collect_birthdays tdy n [] gs = gs"
| "collect_birthdays tdy n (r # rs) gs =
     collect_birthdays tdy n rs
       (case birthday r of
          None \<Rightarrow> gs
        | Some bd \<Rightarrow>
            (case occurrence tdy bd of
               None \<Rightarrow> gs
             | Some occ \<Rightarrow>
                 if in_window tdy n occ then add_to_group (congratulation_date occ) r gs else gs))"

text \<open>
  Modelled from the spec: \<^verbatim>\<open>AddressBook.get_birthdays_per_days(n)\<close> (section 4.4), on the
  records of the book, for the date of the call.
\<close>

definition get_birthdays_per_days :: "date \<Rightarrow> AddressBook \<Rightarrow> int \<Rightarrow> groups" where
  "get_birthdays_per_days tdy book n = collect_birthdays tdy n (map snd book) []"

section \<open>The command layer\<close>

text \<open>
  The bot holds the two books (lines 55 to 56 and 92 to 93). A handler takes the state
  and the argument list and gives its result, a raised exception (\<open>Inl\<close>) or the
  returned text (\<open>Inr\<close>), with the state after the call. A record or note obtained by
  \<^verbatim>\<open>find\<close> is mutated in place by the source; \<open>store_record\<close> and \<open>store_note\<close> write the
  changed value back under its key.
\<close>

record state =
  address_book :: AddressBook
  notes_book :: NotesBook

type_synonym result = "(exn + string) \<times> state"

definition store_record :: "state \<Rightarrow> string \<Rightarrow> Record \<Rightarrow> state" where
  "store_record st k r = st\<lparr>address_book := AList.update k r (address_book st)\<rparr>"

definition store_note :: "state \<Rightarrow> string \<Rightarrow> Note \<Rightarrow> state" where
  "store_note st k n = st\<lparr>notes_book := AList.update k n (notes_book st)\<rparr>"

text \<open>
  \<^verbatim>\<open>input_error\<close> (lines 35 to 51): an exception of the four caught classes becomes the
  returned text \<^verbatim>\<open>f"{error_msg_base}: {e}"\<close>; any other exception passes.
\<close>

definition input_error :: "string \<Rightarrow> result \<Rightarrow> result" where
  "input_error error_msg_base res =
     (case res of
        (Inl e, st) \<Rightarrow>
          if caught e then (Inr (error_msg_base @ '': '' @ exn_str e), st) else (Inl e, st)
      | (Inr out, st) \<Rightarrow> (Inr out, st))"

text \<open>The keys of \<^verbatim>\<open>supported_commands\<close>, in the order of lines 60 to 90.\<close>

definition command_names :: "string list" where
  "command_names =
     [''close'', ''exit'', ''hello'', ''add'', ''update-phone'', ''phone'', ''search'', ''all'',
      ''add-birthday'', ''show-birthday'', ''birthdays'', ''add-address'', ''add-email'',
      ''add-note'', ''delete-note'', ''find-note'', ''all-notes'', ''add-project-tasks'',
      ''add-hobby'', ''find-project-role'', ''find-hobby'', ''update-hobby'',
      ''delete-contact'', ''delete-email'', ''delete-phone'', ''delete-address'',
      ''delete-birthday'', ''update-email'', ''update-address'', ''update-birthday'', ''help'']"

text \<open>\<^verbatim>\<open>help\<close> (lines 95 to 119).\<close>

definition help_command :: "env \<Rightarrow> state \<Rightarrow> string list \<Rightarrow> result" where
  "help_command x st args =
     (let warning =
            (if length args > 1
             then ''Warning: Command optionally expect one argument - command name. Received: ''
                  @ join '' '' args @ ''\<newline>''
             else []);
          search_command = (case args of [] \<Rightarrow> [] | a # _ \<Rightarrow> a)
      in if search_command \<noteq> [] then
           (if search_command \<notin> set command_names
            then (Inr ''Command not supported. Type 'help' to get list of supported commands.'', st)
            else (Inr (warning @ ''Command '' @ [CHR 0x27] @ search_command @ ''' help: ''
                       @ ''\<newline>'' @ doc x search_command), st))
         else (Inr (warning @ ''Supported commands: ''
                    @ concat (map (\<lambda>command. ''\<newline>'' @ command) (sort command_names))
                    @ ''\<newline>\<newline>Type 'help <command>' to get help for specific command.''), st))"

text \<open>
  \<^verbatim>\<open>stop\<close> (lines 121 to 133) takes exactly one message; the call
  \<^verbatim>\<open>command_handler(*args)\<close> with another number of arguments is a \<^verbatim>\<open>TypeError\<close>.
\<close>

definition stop :: "state \<Rightarrow> string list \<Rightarrow> result" where
  "stop st args =
     (case args of
        [message] \<Rightarrow> (Inl (CliHelperSigStop message), st)
      | [] \<Rightarrow> (Inl (TypeError (''CliHelperBot.stop() missing 1 required positional argument: 'message''
                               @ [CHR 0x27])), st)
      | _ \<Rightarrow> (Inl (TypeError (''CliHelperBot.stop() takes 2 positional arguments but ''
                               @ str_nat (length args + 1) @ '' were given'')), st))"

text \<open>\<^verbatim>\<open>parse_input\<close> (lines 135 to 143).\<close>

definition parse_input :: "string \<Rightarrow> exn + string \<times> string list" where
  "parse_input user_input =
     (case str_split user_input of
        [] \<Rightarrow> Inl (ValueError ''not enough values to unpack (expected at least 1, got 0)'')
      | c # args \<Rightarrow>
          (let command = casefold c
           in if command \<in> set [''close'', ''exit'']
              then Inr (command, [''Command '' @ [CHR 0x27] @ command @ ''' received. Good buy!''])
              else Inr (command, args)))"

text \<open>\<^verbatim>\<open>say_hello\<close> (lines 145 to 155).\<close>

definition say_hello :: "state \<Rightarrow> string list \<Rightarrow> result" where
  "say_hello st args =
     (Inr ((if args \<noteq> []
            then ''Warning: Command doesn't expect any arguments. Received: ''
                 @ join '' '' args @ ''\<newline>''
            else [])
           @ ''How can I help you?''), st)"

text \<open>\<^verbatim>\<open>add_birthday\<close> (lines 157 to 188).\<close>

definition add_birthday :: "env \<Rightarrow> state \<Rightarrow> string list \<Rightarrow> result" where
  "add_birthday x st args =
     input_error ''Command 'add-birthday' failed''
       (case args of
          [username, date_str] \<Rightarrow>
            (case AddressBook_find x (address_book st) username of
               Inl e \<Rightarrow>
                 (Inl (on_KeyError e (CommandOperationalError
                    (''user with username '' @ username @ '' doesn't exist. ''
                     @ ''If you want to add number, please use 'add' command.''))), st)
             | Inr rec \<Rightarrow>
                 (case Record_add_birthday x rec date_str of
                    Inl e \<Rightarrow> (Inl e, st)
                  | Inr rec' \<Rightarrow>
                      (Inr (''Contact '' @ username @ '' updated with date: '' @ date_str @ ''.''),
                       store_record st username rec')))
        | _ \<Rightarrow>
            (Inl (CommandOperationalError
               (''command expects an input of two arguments: username and date, separated by a space. ''
                @ ''Received: '' @ join '' '' args)), st))"

text \<open>\<^verbatim>\<open>add_contact\<close> (lines 190 to 218).\<close>

definition add_contact :: "env \<Rightarrow> state \<Rightarrow> string list \<Rightarrow> result" where
  "add_contact x st args =
     input_error ''Command 'add' failed''
       (case args of
          [username, phone] \<Rightarrow>
            (case new_Record x username [phone] of
               Inl e \<Rightarrow> (Inl e, st)
             | Inr rec \<Rightarrow>
                 (case AddressBook_add_record (address_book st) rec of
                    (None, book') \<Rightarrow>
                      (Inl (CommandOperationalError
                         (''user with username '' @ username @ '' already exist. ''
                          @ ''If you want to update number, please use 'change' command.'')),
                       st\<lparr>address_book := book'\<rparr>)
                  | (Some r, book') \<Rightarrow>
                      (Inr (''Contact '' @ username @ '' created with phone: '' @ phone @ ''.''),
                       st\<lparr>address_book := book'\<rparr>)))
        | _ \<Rightarrow>
            (Inl (CommandOperationalError
               (''command expects an input of two arguments: username and phone, separated by a space. ''
                @ ''Received: '' @ join '' '' args)), st))"

text \<open>
  \<^verbatim>\<open>change_contact\<close> (lines 220 to 250). The argument \<^verbatim>\<open>record.phones[0].value\<close> is
  evaluated before \<^verbatim>\<open>edit_phone\<close> is called: on an empty list it raises \<^verbatim>\<open>IndexError\<close>.
\<close>

definition change_contact :: "env \<Rightarrow> state \<Rightarrow> string list \<Rightarrow> result" where
  "change_contact x st args =
     input_error ''Command 'update' failed''
       (case args of
          [username, phone] \<Rightarrow>
            (case AddressBook_find x (address_book st) username of
               Inl e \<Rightarrow>
                 (Inl (on_KeyError e (CommandOperationalError
                    (''user with username '' @ username @ '' doesn't exist. ''
                     @ ''If you want to add number, please use 'add' command.''))), st)
             | Inr rec \<Rightarrow>
                 (case phones rec of
                    [] \<Rightarrow> (Inl (IndexError ''list index out of range''), st)
                  | p0 # _ \<Rightarrow>
                      (case Record_edit_phone x rec p0 phone of
                         Inl e \<Rightarrow> (Inl e, st)
                       | Inr rec' \<Rightarrow>
                           (Inr (''Contact '' @ username @ '' updated with phone: '' @ phone @ ''.''),
                            store_record st username rec'))))
        | _ \<Rightarrow>
            (Inl (CommandOperationalError
               (''command expects an input of two arguments: username and phone, separated by a space. ''
                @ ''Received: '' @ join '' '' args)), st))"

text \<open>\<^verbatim>\<open>show_birthday\<close> (lines 252 to 280).\<close>

definition show_birthday :: "env \<Rightarrow> state \<Rightarrow> string list \<Rightarrow> result" where
  "show_birthday x st args =
     input_error ''Command 'show-birthday' failed''
       (case args of
          [username] \<Rightarrow>
            (case AddressBook_find x (address_book st) username of
               Inl e \<Rightarrow>
                 (Inl (on_KeyError e (CommandOperationalError
                    (''user with username '' @ username @ '' doesn't exist. Try another username.''))), st)
             | Inr rec \<Rightarrow>
                 (Inr (''User's '' @ username @ '' birthday is: '' @ str_birthday x (birthday rec)), st))
        | _ \<Rightarrow>
            (Inl (CommandOperationalError
               (''command expects an input of one argument: username. ''
                @ ''Received: '' @ join '' '' args)), st))"

text \<open>\<^verbatim>\<open>search_contact\<close> (lines 282 to 311).\<close>

definition search_contact :: "env \<Rightarrow> state \<Rightarrow> string list \<Rightarrow> result" where
  "search_contact x st args =
     input_error ''Command 'search' failed''
       (case args of
          [query] \<Rightarrow>
            (let records = AddressBook_search x (address_book st) query
             in if records = [] then (Inr ''No records found with provided query.'', st)
                else (Inr (''Found Records: ''
                           @ concat (map (\<lambda>r. ''\<newline>'' @ str_record x r) records)), st))
        | _ \<Rightarrow>
            (Inl (CommandOperationalError
               (''command expects an input of one argument: search query. ''
                @ ''Received: '' @ join '' '' args)), st))"

text \<open>\<^verbatim>\<open>get_contact\<close> (lines 313 to 341).\<close>

definition get_contact :: "env \<Rightarrow> state \<Rightarrow> string list \<Rightarrow> result" where
  "get_contact x st args =
     input_error ''Command 'phone' failed''
       (case args of
          [username] \<Rightarrow>
            (case AddressBook_find x (address_book st) username of
               Inl e \<Rightarrow>
                 (Inl (on_KeyError e (CommandOperationalError
                    (''user with username '' @ username @ '' doesn't exist. Try another username.''))), st)
             | Inr rec \<Rightarrow> (Inr (''Record found: \<newline>'' @ str_record x rec), st))
        | _ \<Rightarrow>
            (Inl (CommandOperationalError
               (''command expects an input of one argument: username. ''
                @ ''Received: '' @ join '' '' args)), st))"

text \<open>
  \<^verbatim>\<open>birthdays\<close> (lines 343 to 376). \<open>birthdays_days\<close> is the part of the handler that
  runs before the call of \<^verbatim>\<open>get_birthdays_per_days\<close> (lines 354 to 365): it gives the
  number of days passed to that call, or the exception raised before it. The
  \<^verbatim>\<open>ValueError\<close> of \<^verbatim>\<open>int(args[0])\<close> is the only failure the handler turns into its
  message about a valid integer; the sign of the number is not looked at.
\<close>

definition birthdays_days :: "env \<Rightarrow> string list \<Rightarrow> exn + int" where
  "birthdays_days x args =
     (case args of
        [a] \<Rightarrow>
          (case py_int (int_max_str_digits x) a of
             None \<Rightarrow>
               Inl (CommandOperationalError
                 ''Command expects a valid integer - number of days, please recheck your input.'')
           | Some days \<Rightarrow> Inr days)
      | _ \<Rightarrow>
          Inl (CommandOperationalError
            (''Warning: Command expect one argument: number of days. ''
             @ ''Received: '' @ join '' '' args @ ''\<newline>'')))"

definition birthdays :: "env \<Rightarrow> state \<Rightarrow> string list \<Rightarrow> result" where
  "birthdays x st args =
     input_error ''Command 'birthdays' failed''
       (case birthdays_days x args of
          Inl e \<Rightarrow> (Inl e, st)
        | Inr days \<Rightarrow>
            (let results = get_birthdays_per_days (today x) (address_book st) days
             in if results = [] then (Inr ''No contacts found'', st)
                else (Inr (''Contacts per day: ''
                           @ concat (map (\<lambda>(d, records).
                               ''\<newline>Have BD on '' @ str_date x d @ '':\<newline> ''
                               @ ''| '' @ join ''\<newline> | '' (map (str_record x) records)) results)),
                      st)))"

text \<open>\<^verbatim>\<open>print_all_contacts\<close> (lines 378 to 398).\<close>

definition print_all_contacts :: "env \<Rightarrow> state \<Rightarrow> string list \<Rightarrow> result" where
  "print_all_contacts x st args =
     (Inr ((if args \<noteq> []
            then ''Warning: Command doesn't expect any arguments. Received: ''
                 @ join '' '' args @ ''\<newline>''
            else [])
           @ ''All Records: ''
           @ concat (map (\<lambda>r. ''\<newline>'' @ str_record x r) (AddressBook_values (address_book st)))), st)"

text \<open>\<^verbatim>\<open>add_address\<close> (lines 408 to 439).\<close>

definition add_address :: "env \<Rightarrow> state \<Rightarrow> string list \<Rightarrow> result" where
  "add_address x st args =
     input_error ''Command 'add-address' failed''
       (case args of
          [username, address_str] \<Rightarrow>
            (case AddressBook_find x (address_book st) username of
               Inl e \<Rightarrow>
                 (Inl (on_KeyError e (CommandOperationalError
                    (''user with username '' @ username @ '' doesn't exist. ''
                     @ ''If you want to add address, please use 'add-address' command.''))), st)
             | Inr rec \<Rightarrow>
                 (case Record_add_address x rec address_str of
                    Inl e \<Rightarrow> (Inl e, st)
                  | Inr rec' \<Rightarrow>
                      (Inr (''Contact '' @ username @ '' updated with address: '' @ address_str @ ''.''),
                       store_record st username rec')))
        | _ \<Rightarrow>
            (Inl (CommandOperationalError
               (''command expects an input of two arguments: username and address, separated by a space. ''
                @ ''Received: '' @ join '' '' args)), st))"

text \<open>\<^verbatim>\<open>add_email\<close> (lines 441 to 472).\<close>

definition add_email :: "env \<Rightarrow> state \<Rightarrow> string list \<Rightarrow> result" where
  "add_email x st args =
     input_error ''Command 'add-email' failed''
       (case args of
          [username, email_str] \<Rightarrow>
            (case AddressBook_find x (address_book st) username of
               Inl e \<Rightarrow>
                 (Inl (on_KeyError e (CommandOperationalError
                    (''user with username '' @ username @ '' doesn't exist. ''
                     @ ''If you want to add email, please use 'add-email' command.''))), st)
             | Inr rec \<Rightarrow>
                 (case Record_add_email x rec email_str of
                    Inl e \<Rightarrow> (Inl e, st)
                  | Inr rec' \<Rightarrow>
                      (Inr (''Contact '' @ username @ '' updated with email: '' @ email_str @ ''.''),
                       store_record st username rec')))
        | _ \<Rightarrow>
            (Inl (CommandOperationalError
               (''command expects an input of two arguments: username and email, separated by a space. ''
                @ ''Received: '' @ join '' '' args)), st))"

text \<open>\<^verbatim>\<open>add_note\<close> (lines 474 to 502).\<close>

definition add_note :: "env \<Rightarrow> state \<Rightarrow> string list \<Rightarrow> result" where
  "add_note x st args =
     input_error ''Command 'add-note' failed''
       (case args of
          [nm, role] \<Rightarrow>
            (case NotesBook_add_note (notes_book st) (new_Note nm role) of
               (None, book') \<Rightarrow>
                 (Inl (CommandOperationalError
                    (''Note '' @ nm @ '' already exist. ''
                     @ ''If you want to update project role, please use 'change-project-role' command.'')),
                  st\<lparr>notes_book := book'\<rparr>)
             | (Some n, book') \<Rightarrow>
                 (Inr (''Created note '' @ nm @ '' '' @ role @ ''.''), st\<lparr>notes_book := book'\<rparr>))
        | _ \<Rightarrow>
            (Inl (CommandOperationalError
               (''command expects an input of two arguments: name and project role, separated by a space. ''
                @ ''Received: '' @ join '' '' args)), st))"

text \<open>\<^verbatim>\<open>delete_note\<close> (lines 504 to 532).\<close>

definition delete_note :: "env \<Rightarrow> state \<Rightarrow> string list \<Rightarrow> result" where
  "delete_note x st args =
     input_error ''Command 'delete-note' failed''
       (case args of
          [nm] \<Rightarrow>
            (case NotesBook_delete x (notes_book st) nm of
               Inl e \<Rightarrow>
                 (Inl (on_KeyError e (CommandOperationalError
                    (''Note with name '' @ nm @ '' doesn't exist. ''))), st)
             | Inr book' \<Rightarrow>
                 (Inr (''Note '' @ nm @ '' removed from Notes book.''), st\<lparr>notes_book := book'\<rparr>))
        | _ \<Rightarrow>
            (Inl (CommandOperationalError
               (''command expects an input of one argument: note name. ''
                @ ''Received: '' @ join '' '' args)), st))"

text \<open>
  \<^verbatim>\<open>add_project_tasks\<close> (lines 534 to 566). The guard is \<^verbatim>\<open>len(args) <= 2\<close>; the
  unpacking \<^verbatim>\<open>name, *project_tasks = args\<close> follows it.
\<close>

definition add_project_tasks :: "env \<Rightarrow> state \<Rightarrow> string list \<Rightarrow> result" where
  "add_project_tasks x st args =
     input_error ''Command 'add-project-tasks' failed''
       (if length args \<le> 2 then
          (Inl (CommandOperationalError
             (''command expects an input of two arguments: name and project tasks string, separated by a space. ''
              @ ''Received: '' @ join '' '' args)), st)
        else
          (case args of
             [] \<Rightarrow> (Inl (ValueError ''not enough values to unpack (expected at least 1, got 0)''), st)
           | nm # project_tasks_list \<Rightarrow>
               (let tasks_str = join '' '' project_tasks_list
                in case NotesBook_find x (notes_book st) nm of
                     Inl e \<Rightarrow>
                       (Inl (on_KeyError e (CommandOperationalError
                          (''note with name '' @ nm @ '' doesn't exist. ''))), st)
                   | Inr note \<Rightarrow>
                       (Inr (''Note '' @ nm @ '' updated''),
                        store_note st nm (Note_add_project_tasks note tasks_str)))))"

text \<open>\<^verbatim>\<open>find_note\<close> (lines 568 to 591): the \<^verbatim>\<open>KeyError\<close> of \<^verbatim>\<open>find\<close> is not caught here.\<close>

definition find_note :: "env \<Rightarrow> state \<Rightarrow> string list \<Rightarrow> result" where
  "find_note x st args =
     input_error ''Command 'find-note' failed''
       (case args of
          [nm] \<Rightarrow>
            (case NotesBook_find x (notes_book st) nm of
               Inl e \<Rightarrow> (Inl e, st)
             | Inr note \<Rightarrow> (Inr (''Found note: '' @ str_note x note), st))
        | _ \<Rightarrow>
            (Inl (CommandOperationalError
               (''command expects an input of one argument: name string.''
                @ ''Received: '' @ str_nat (length args))), st))"

text \<open>\<^verbatim>\<open>find_project_role\<close> (lines 593 to 620).\<close>

definition find_project_role :: "env \<Rightarrow> state \<Rightarrow> string list \<Rightarrow> result" where
  "find_project_role x st args =
     input_error ''Command 'find-project-role' failed''
       (case args of
          [role] \<Rightarrow>
            (let found = NotesBook_find_project_role (notes_book st) role
             in (Inr (''Found Notes: '' @ concat (map (\<lambda>n. ''\<newline>'' @ str_note x n) found)), st))
        | _ \<Rightarrow>
            (Inl (CommandOperationalError
               (''command expects an input of one argument: project role string.''
                @ ''Received: '' @ str_nat (length args))), st))"

text \<open>
  \<^verbatim>\<open>add_hobby\<close> (lines 622 to 653). The guard is \<^verbatim>\<open>len(args) <= 2\<close>; the unpacking
  \<^verbatim>\<open>name, *hobby = args\<close> follows it.
\<close>

definition add_hobby :: "env \<Rightarrow> state \<Rightarrow> string list \<Rightarrow> result" where
  "add_hobby x st args =
     input_error ''Command 'add-hobby' failed''
       (if length args \<le> 2 then
          (Inl (CommandOperationalError
             (''command expects an input of two arguments: name and hobby, separated by a space. ''
              @ ''Received: '' @ join '' '' args)), st)
        else
          (case args of
             [] \<Rightarrow> (Inl (ValueError ''not enough values to unpack (expected at least 1, got 0)''), st)
           | nm # hobby \<Rightarrow>
               (let hobby_str = join '' '' hobby
                in case NotesBook_find x (notes_book st) nm of
                     Inl e \<Rightarrow>
                       (Inl (on_KeyError e (CommandOperationalError
                          (''note with name '' @ nm @ '' doesn't exist. ''))), st)
                   | Inr note \<Rightarrow>
                       (Inr (''Note '' @ nm @ '' updated with hobby: '' @ hobby_str @ ''.''),
                        store_note st nm (Note_add_hobby note hobby_str)))))"

text \<open>\<^verbatim>\<open>find_hobby\<close> (lines 655 to 681).\<close>

definition find_hobby :: "env \<Rightarrow> state \<Rightarrow> string list \<Rightarrow> result" where
  "find_hobby x st args =
     input_error ''Command 'find-hobby' failed''
       (case args of
          [hobby] \<Rightarrow>
            (let found = NotesBook_find_hobby (notes_book st) hobby
             in (Inr (''Found Notes: '' @ concat (map (\<lambda>n. ''\<newline>'' @ str_note x n) found)), st))
        | _ \<Rightarrow>
            (Inl (CommandOperationalError
               (''command expects an input of one argument: hobby string.''
                @ ''Received: '' @ str_nat (length args))), st))"

text \<open>
  \<^verbatim>\<open>update_hobby\<close> (lines 683 to 712): the \<^verbatim>\<open>NotFoundError\<close> of \<^verbatim>\<open>edit_hobby\<close> is raised
  outside the \<^verbatim>\<open>try\<close>.
\<close>

definition update_hobby :: "env \<Rightarrow> state \<Rightarrow> string list \<Rightarrow> result" where
  "update_hobby x st args =
     input_error ''Command 'update' failed''
       (case args of
          [nm, old_hobby, new_hobby] \<Rightarrow>
            (case NotesBook_find x (notes_book st) nm of
               Inl e \<Rightarrow>
                 (Inl (on_KeyError e (CommandOperationalError
                    (''note with name '' @ nm @ '' doesn't exist. ''))), st)
             | Inr note \<Rightarrow>
                 (case Note_edit_hobby x note old_hobby new_hobby of
                    Inl e \<Rightarrow> (Inl e, st)
                  | Inr note' \<Rightarrow>
                      (Inr (''Note '' @ nm @ '' updated with new hobby: '' @ new_hobby @ ''.''),
                       store_note st nm note')))
        | _ \<Rightarrow>
            (Inl (CommandOperationalError
               (''command expects an input of three arguments: name, old hobby and new hobby, separated by a space. ''
                @ ''Received: '' @ join '' '' args)), st))"

text \<open>\<^verbatim>\<open>all_notes\<close> (lines 714 to 734).\<close>

definition all_notes :: "env \<Rightarrow> state \<Rightarrow> string list \<Rightarrow> result" where
  "all_notes x st args =
     (Inr ((if args \<noteq> []
            then ''Warning: Command doesn't expect any arguments. Received: ''
                 @ join '' '' args @ ''\<newline>''
            else [])
           @ ''All Notes: ''
           @ concat (map (\<lambda>n. ''\<newline>'' @ str_note x n) (NotesBook_values (notes_book st)))), st)"

text \<open>\<^verbatim>\<open>delete_contact\<close> (lines 736 to 764).\<close>

definition delete_contact :: "env \<Rightarrow> state \<Rightarrow> string list \<Rightarrow> result" where
  "delete_contact x st args =
     input_error ''Command 'delete-contact' failed''
       (case args of
          [username] \<Rightarrow>
            (case AddressBook_delete x (address_book st) username of
               Inl e \<Rightarrow>
                 (Inl (on_KeyError e (CommandOperationalError
                    (''user with username '' @ username @ '' doesn't exist. ''))), st)
             | Inr book' \<Rightarrow>
                 (Inr (''Contact '' @ username @ '' removed from Address book.''),
                  st\<lparr>address_book := book'\<rparr>))
        | _ \<Rightarrow>
            (Inl (CommandOperationalError
               (''command expects an input of one argument: username. ''
                @ ''Received: '' @ join '' '' args)), st))"

text \<open>\<^verbatim>\<open>delete_phone\<close> (lines 766 to 794).\<close>

definition delete_phone :: "env \<Rightarrow> state \<Rightarrow> string list \<Rightarrow> result" where
  "delete_phone x st args =
     input_error ''Command 'delete-phone' failed''
       (case args of
          [username, phone] \<Rightarrow>
            (case AddressBook_find x (address_book st) username of
               Inl e \<Rightarrow>
                 (Inl (on_KeyError e (CommandOperationalError
                    (''user with username '' @ username @ '' doesn`t exist. Try another username''))), st)
             | Inr rec \<Rightarrow>
                 (case Record_remove_phone x rec phone of
                    Inl e \<Rightarrow> (Inl e, st)
                  | Inr rec' \<Rightarrow>
                      (Inr (''Phone of contact  '' @ username @ '' removed from Address book.''),
                       store_record st username rec')))
        | _ \<Rightarrow>
            (Inl (CommandOperationalError
               (''command expects an input of one argument: username and phone. ''
                @ ''Received: '' @ join '' '' args)), st))"

text \<open>\<^verbatim>\<open>delete_email\<close> (lines 796 to 824).\<close>

definition delete_email :: "env \<Rightarrow> state \<Rightarrow> string list \<Rightarrow> result" where
  "delete_email x st args =
     input_error ''Command 'delete-email' failed''
       (case args of
          [username] \<Rightarrow>
            (case AddressBook_find x (address_book st) username of
               Inl e \<Rightarrow>
                 (Inl (on_KeyError e (CommandOperationalError
                    (''user with username '' @ username @ '' doesn`t exist. Try another username''))), st)
             | Inr rec \<Rightarrow>
                 (case Record_remove_email rec of
                    Inl e \<Rightarrow> (Inl e, st)
                  | Inr rec' \<Rightarrow>
                      (Inr (''Email of contact  '' @ username @ '' removed from Address book.''),
                       store_record st username rec')))
        | _ \<Rightarrow>
            (Inl (CommandOperationalError
               (''command expects an input of one argument: username. ''
                @ ''Received: '' @ join '' '' args)), st))"

text \<open>\<^verbatim>\<open>delete_address\<close> (lines 826 to 854).\<close>

definition delete_address :: "env \<Rightarrow> state \<Rightarrow> string list \<Rightarrow> result" where
  "delete_address x st args =
     input_error ''Command 'delete-address' failed''
       (case args of
          [username] \<Rightarrow>
            (case AddressBook_find x (address_book st) username of
               Inl e \<Rightarrow>
                 (Inl (on_KeyError e (CommandOperationalError
                    (''user with username '' @ username @ '' doesn`t exist. Try another username''))), st)
             | Inr rec \<Rightarrow>
                 (case Record_remove_address rec of
                    Inl e \<Rightarrow> (Inl e, st)
                  | Inr rec' \<Rightarrow>
                      (Inr (''Address of contact  '' @ username @ '' removed from Address book.''),
                       store_record st username rec')))
        | _ \<Rightarrow>
            (Inl (CommandOperationalError
               (''command expects an input of one argument: username. ''
                @ ''Received: '' @ join '' '' args)), st))"

text \<open>\<^verbatim>\<open>delete_birthday\<close> (lines 856 to 884).\<close>

definition delete_birthday :: "env \<Rightarrow> state \<Rightarrow> string list \<Rightarrow> result" where
  "delete_birthday x st args =
     input_error ''Command 'delete-birthday' failed''
       (case args of
          [username] \<Rightarrow>
            (case AddressBook_find x (address_book st) username of
               Inl e \<Rightarrow>
                 (Inl (on_KeyError e (CommandOperationalError
                    (''user with username '' @ username @ '' doesn`t exist. Try another username''))), st)
             | Inr rec \<Rightarrow>
                 (case Record_remove_birthday rec of
                    Inl e \<Rightarrow> (Inl e, st)
                  | Inr rec' \<Rightarrow>
                      (Inr (''Birthday of contact '' @ username @ '' removed from Address book.''),
                       store_record st username rec')))
        | _ \<Rightarrow>
            (Inl (CommandOperationalError
               (''command expects an input of one argument: username. ''
                @ ''Received: '' @ join '' '' args)), st))"

text \<open>\<^verbatim>\<open>update_email\<close> (lines 886 to 914).\<close>

definition update_email :: "env \<Rightarrow> state \<Rightarrow> string list \<Rightarrow> result" where
  "update_email x st args =
     input_error ''Command 'update-email' failed''
       (case args of
          [username, email_str] \<Rightarrow>
            (case AddressBook_find x (address_book st) username of
               Inl e \<Rightarrow>
                 (Inl (on_KeyError e (CommandOperationalError
                    (''user with username '' @ username @ '' doesn`t exist. Try another username''))), st)
             | Inr rec \<Rightarrow>
                 (case Record_update_email x rec email_str of
                    Inl e \<Rightarrow> (Inl e, st)
                  | Inr rec' \<Rightarrow>
                      (Inr (''Email of contact  '' @ username @ '' updated.''),
                       store_record st username rec')))
        | _ \<Rightarrow>
            (Inl (CommandOperationalError
               (''command expects an input of 2 arguments: username and email ''
                @ ''Received: '' @ join '' '' args)), st))"

text \<open>\<^verbatim>\<open>update_address\<close> (lines 916 to 944).\<close>

definition update_address :: "env \<Rightarrow> state \<Rightarrow> string list \<Rightarrow> result" where
  "update_address x st args =
     input_error ''Command 'update-address' failed''
       (case args of
          [username, address_str] \<Rightarrow>
            (case AddressBook_find x (address_book st) username of
               Inl e \<Rightarrow>
                 (Inl (on_KeyError e (CommandOperationalError
                    (''user with username '' @ username @ '' doesn`t exist. Try another username''))), st)
             | Inr rec \<Rightarrow>
                 (case Record_update_address x rec address_str of
                    Inl e \<Rightarrow> (Inl e, st)
                  | Inr rec' \<Rightarrow>
                      (Inr (''Address of contact  '' @ username @ '' updated.''),
                       store_record st username rec')))
        | _ \<Rightarrow>
            (Inl (CommandOperationalError
               (''command expects an input of 2 arguments: username and address ''
                @ ''Received: '' @ join '' '' args)), st))"

text \<open>\<^verbatim>\<open>update_birthday\<close> (lines 946 to 974).\<close>

definition update_birthday :: "env \<Rightarrow> state \<Rightarrow> string list \<Rightarrow> result" where
  "update_birthday x st args =
     input_error ''Command 'update-birthday' failed''
       (case args of
          [username, birthday_str] \<Rightarrow>
            (case AddressBook_find x (address_book st) username of
               Inl e \<Rightarrow>
                 (Inl (on_KeyError e (CommandOperationalError
                    (''user with username '' @ username @ '' doesn`t exist. Try another username''))), st)
             | Inr rec \<Rightarrow>
                 (case Record_update_birthday x rec birthday_str of
                    Inl e \<Rightarrow> (Inl e, st)
                  | Inr rec' \<Rightarrow>
                      (Inr (''Birthday of contact  '' @ username @ '' updated.''),
                       store_record st username rec')))
        | _ \<Rightarrow>
            (Inl (CommandOperationalError
               (''command expects an input of 2 arguments: username and birthday ''
                @ ''Received: '' @ join '' '' args)), st))"

text \<open>
  The dictionary \<^verbatim>\<open>supported_commands\<close> (lines 59 to 91) and \<^verbatim>\<open>execute_command\<close>
  (lines 400 to 406), which is itself wrapped by \<^verbatim>\<open>input_error\<close>.
\<close>

definition supported_commands :: "env \<Rightarrow> (string \<times> (state \<Rightarrow> string list \<Rightarrow> result)) list" where
  "supported_commands x =
     [(''close'', stop),
      (''exit'', stop),
      (''hello'', say_hello),
      (''add'', add_contact x),
      (''update-phone'', change_contact x),
      (''phone'', get_contact x),
      (''search'', search_contact x),
      (''all'', print_all_contacts x),
      (''add-birthday'', add_birthday x),
      (''show-birthday'', show_birthday x),
      (''birthdays'', birthdays x),
      (''add-address'', add_address x),
      (''add-email'', add_email x),
      (''add-note'', add_note x),
      (''delete-note'', delete_note x),
      (''find-note'', find_note x),
      (''all-notes'', all_notes x),
      (''add-project-tasks'', add_project_tasks x),
      (''add-hobby'', add_hobby x),
      (''find-project-role'', find_project_role x),
      (''find-hobby'', find_hobby x),
      (''update-hobby'', update_hobby x),
      (''delete-contact'', delete_contact x),
      (''delete-email'', delete_email x),
      (''delete-phone'', delete_phone x),
      (''delete-address'', delete_address x),
      (''delete-birthday'', delete_birthday x),
      (''update-email'', update_email x),
      (''update-address'', update_address x),
      (''update-birthday'', update_birthday x),
      (''help'', help_command x)]"

text \<open>
  \<open>call_handler\<close> is the body of \<^verbatim>\<open>execute_command\<close>, before the decorator: the lookup
  of the command and the call \<^verbatim>\<open>command_handler(*args)\<close>.
\<close>

definition call_handler :: "env \<Rightarrow> state \<Rightarrow> string \<Rightarrow> string list \<Rightarrow> result" where
  "call_handler x st command args =
     (case map_of (supported_commands x) command of
        None \<Rightarrow>
          (Inl (CommandNotSupported (''command '' @ [CHR 0x27] @ command @ ''' is not supported!'')), st)
      | Some command_handler \<Rightarrow> command_handler st args)"

definition execute_command :: "env \<Rightarrow> state \<Rightarrow> string \<Rightarrow> string list \<Rightarrow> result" where
  "execute_command x st command args =
     input_error ''Command execution failed'' (call_handler x st command args)"

text \<open>
  The loop of \<^verbatim>\<open>main\<close> (lines 976 to 1007), run on the lines the prompt returns. It ends
  when a handler raises \<^verbatim>\<open>CliHelperSigStop\<close> (\<open>Stopped\<close>), or when any other exception
  reaches the clause \<^verbatim>\<open>except Exception\<close>, which prints and raises it again
  (\<open>Crashed\<close>); with no line left it waits at the prompt (\<open>Prompting\<close>). The second
  component is what has been printed.
\<close>

datatype run = Stopped "string list" | Crashed exn "string list" | Prompting state "string list"

definition on_exception :: "exn \<Rightarrow> string list \<Rightarrow> run" where
  "on_exception e out =
     (case e of
        CliHelperSigStop m \<Rightarrow> Stopped (out @ [m])
      | _ \<Rightarrow>
          Crashed e (out @ [''Unknown exception was encountered during execution: ''
                            @ exn_str e @ ''The bot will stop ...'']))"

fun main :: "env \<Rightarrow> state \<Rightarrow> string list \<Rightarrow> string list \<Rightarrow> run" where
  "main x st [] out = Prompting st out"
| "main x st (user_input # rest) out =
     (case parse_input user_input of
        Inl e \<Rightarrow> on_exception e out
      | Inr (command, args) \<Rightarrow>
          (case execute_command x st command args of
             (Inl e, st') \<Rightarrow> on_exception e out
           | (Inr command_output, st') \<Rightarrow>
               main x st' rest
                 (out @ [''Command was'' @ [CHR 0x27] @ command
                         @ ''' executed, might have been successfully. Result is:''
                         @ ''\<newline>'' @ command_output])))"

section \<open>A concrete environment\<close>

text \<open>
  The examples below run the model in one concrete environment: a phone is ten digits,
  an email has an \<open>@\<close>, a date is written \<^verbatim>\<open>YYYY.MM.DD\<close>, and the renderings list the
  fields. Today is Sunday, 3 March 2024, and the limit on the digits of \<^verbatim>\<open>int\<close> is the
  default of 4300.
\<close>

fun split_on :: "char \<Rightarrow> string \<Rightarrow> string list" where
  "split_on sep [] = [[]]"
| "split_on sep (c # cs) =
     (case split_on sep cs of
        [] \<Rightarrow> [[c]]
      | w # ws \<Rightarrow> if c = sep then [] # w # ws else (c # w) # ws)"

definition sample_parse_date :: "string \<Rightarrow> string + date" where
  "sample_parse_date s =
     (case map (py_int 4300) (split_on CHR ''.'' s) of
        [Some y, Some m, Some d] \<Rightarrow>
          if valid_date \<lparr>year = y, month = m, day = d\<rparr>
          then Inr \<lparr>year = y, month = m, day = d\<rparr>
          else Inl ''Invalid date format. Use YYYY.MM.DD''
      | _ \<Rightarrow> Inl ''Invalid date format. Use YYYY.MM.DD'')"

definition sample_str_date :: "date \<Rightarrow> string" where
  "sample_str_date d =
     str_nat (nat (year d)) @ ''.'' @ str_nat (nat (month d)) @ ''.'' @ str_nat (nat (day d))"

definition sample_env :: env where
  "sample_env =
     \<lparr>validate_phone =
        (\<lambda>s. if length s = 10 \<and> list_all isdigit s then Inr s
              else Inl ''Phone number must have 10 digits''),
      validate_email = (\<lambda>s. if contains ''@'' s then Inr s else Inl ''Invalid email''),
      parse_date = sample_parse_date,
      str_record = (\<lambda>r. ''Contact name: '' @ name r @ '', phones: '' @ join ''; '' (phones r)),
      str_note = (\<lambda>n. ''Note: '' @ note_name n @ '', role: '' @ project_role n
                        @ '', hobbies: '' @ join ''; '' (hobbies n)),
      str_date = sample_str_date,
      str_birthday = (\<lambda>b. case b of None \<Rightarrow> ''None'' | Some d \<Rightarrow> sample_str_date d),
      not_found = (\<lambda>op k. [CHR 0x27] @ k @ [CHR 0x27]),
      empty_address = ''Address must not be empty'',
      doc = (\<lambda>c. ''''),
      today = \<lparr>year = 2024, month = 3, day = 3\<rparr>,
      int_max_str_digits = 4300\<rparr>"

definition empty_state :: state where
  "empty_state = \<lparr>address_book = [], notes_book = []\<rparr>"

text \<open>Two states of the examples: Alice with her phone, and Alice after her phone was deleted.\<close>

definition alice_state :: state where
  "alice_state =
     \<lparr>address_book = [(''alice'', \<lparr>name = ''alice'', phones = [''1234567890''], birthday = None,
                                  email = None, address = None\<rparr>)],
      notes_book = []\<rparr>"

definition alice_no_phone :: state where
  "alice_no_phone =
     \<lparr>address_book = [(''alice'', \<lparr>name = ''alice'', phones = [], birthday = None, email = None,
                                  address = None\<rparr>)],
      notes_book = []\<rparr>"


text \<open>The notes book after the note \<^verbatim>\<open>proj1\<close> with the role \<^verbatim>\<open>backend\<close> was added.\<close>

definition proj1_state :: state where
  "proj1_state =
     \<lparr>address_book = [],
      notes_book = [(''proj1'', \<lparr>note_name = ''proj1'', project_role = ''backend'',
                                 project_tasks = [], hobbies = []\<rparr>)]\<rparr>"

text \<open>
  The records of a result of \<open>get_birthdays_per_days\<close>, each with the date of its
  group.
\<close>

definition members :: "groups \<Rightarrow> (date \<times> Record) set" where
  "members gs = set (concat (map (\<lambda>(d, rs). map (Pair d) rs) gs))"

text \<open>
  The condition of the specification on one record, in its words: the record has a
  birthday, the birthday has an occurrence, and the occurrence falls within the
  inclusive window from today to today plus \<open>n\<close> days. The value is that occurrence.
\<close>

definition window_occurrence :: "date \<Rightarrow> int \<Rightarrow> Record \<Rightarrow> date option" where
  "window_occurrence tdy n r =
     (case birthday r of
        None \<Rightarrow> None
      | Some bd \<Rightarrow>
          (case occurrence tdy bd of
             None \<Rightarrow> None
           | Some occ \<Rightarrow>
               if toordinal tdy \<le> toordinal occ \<and> toordinal occ \<le> toordinal tdy + n
               then Some occ else None))"

text \<open>
  A book of four contacts: Alice (born on 9 March), Bob (no birthday), Carol (born on
  5 March) and Dave (born on 25 December).
\<close>

definition alice_rec :: Record where
  "alice_rec = \<lparr>name = ''alice'', phones = [''1234567890''],
                 birthday = Some \<lparr>year = 1990, month = 3, day = 9\<rparr>,
                 email = None, address = None\<rparr>"

definition bob_rec :: Record where
  "bob_rec = \<lparr>name = ''bob'', phones = [''0987654321''], birthday = None,
               email = None, address = None\<rparr>"

definition carol_rec :: Record where
  "carol_rec = \<lparr>name = ''carol'', phones = [''5555555555''],
                 birthday = Some \<lparr>year = 1985, month = 3, day = 5\<rparr>,
                 email = None, address = None\<rparr>"

definition dave_rec :: Record where
  "dave_rec = \<lparr>name = ''dave'', phones = [''4444444444''],
                birthday = Some \<lparr>year = 1970, month = 12, day = 25\<rparr>,
                email = None, address = None\<rparr>"

definition birthday_book :: AddressBook where
  "birthday_book =
     [(''alice'', alice_rec), (''bob'', bob_rec), (''carol'', carol_rec), (''dave'', dave_rec)]"

section \<open>Basic facts\<close>

declare str_split.simps [simp del]
declare str_nat.simps [simp del]

lemma input_error_Inr: "input_error base (Inr out, st) = (Inr out, st)"
  by (simp add: input_error_def)

lemma input_error_caught:
  "caught e \<Longrightarrow> input_error base (Inl e, st) = (Inr (base @ '': '' @ exn_str e), st)"
  by (simp add: input_error_def)

lemma input_error_passes: "\<not> caught e \<Longrightarrow> input_error base (Inl e, st) = (Inl e, st)"
  by (simp add: input_error_def)

lemma snd_input_error: "snd (input_error base res) = snd res"
  by (cases res) (auto simp: input_error_def split: sum.splits)

lemma fst_input_error_Inl:
  "fst (input_error base res) = Inl e \<longleftrightarrow> fst res = Inl e \<and> \<not> caught e"
  by (cases res) (auto simp: input_error_def split: sum.splits)

lemma command_names_keys: "map fst (supported_commands x) = command_names"
  by (simp add: supported_commands_def command_names_def)

lemma map_of_commands_None:
  "map_of (supported_commands x) command = None \<longleftrightarrow> command \<notin> set command_names"
  unfolding map_of_eq_None_iff command_names_keys [of x, symmetric] by simp

lemma find_None:
  "n \<notin> fst ` set book \<Longrightarrow> AddressBook_find x book n = Inl (KeyError (not_found x ''find'' n))"
proof -
  assume "n \<notin> fst ` set book"
  then have "map_of book n = None"
    by (simp add: map_of_eq_None_iff)
  then show ?thesis
    by (simp add: AddressBook_find_def)
qed

lemma str_split_blank: "list_all isspace s \<Longrightarrow> str_split s = []"
proof -
  assume "list_all isspace s"
  then have blank: "dropWhile isspace s = []"
    by (simp add: list_all_iff)
  show ?thesis
    by (subst str_split.simps) (simp add: blank)
qed

lemma sample_phone_ok: "validate_phone sample_env ''1234567890'' = Inr ''1234567890''"
  by (simp add: sample_env_def isdigit_def)

lemma add_alice:
  "add_contact sample_env empty_state [''alice'', ''1234567890'']
     = (Inr ''Contact alice created with phone: 1234567890.'', alice_state)"
  by (simp add: add_contact_def new_Record_def sample_phone_ok AddressBook_add_record_def
      empty_state_def alice_state_def input_error_Inr)

lemma delete_alice_phone:
  "delete_phone sample_env alice_state [''alice'', ''1234567890'']
     = (Inr ''Phone of contact  alice removed from Address book.'', alice_no_phone)"
  by (simp add: delete_phone_def AddressBook_find_def Record_remove_phone_def store_record_def
      alice_state_def alice_no_phone_def input_error_Inr)

section \<open>The command layer never lets the four caught classes escape\<close>

text \<open>
  C9: \<open>input_error\<close> turns an exception of the four caught classes into the text
  \<^verbatim>\<open>"<error_msg_base>: <e>"\<close>; so \<open>execute_command\<close> returns a text whenever the body of
  the call, or the handler it invokes, raises only such exceptions; and a command that
  is not supported gives the text
  \<^verbatim>\<open>"Command execution failed: command '<name>' is not supported!"\<close> with the state
  unchanged.
\<close>

theorem execute_command_returns_text:
  "(caught e \<longrightarrow> input_error base (Inl e, st) = (Inr (base @ '': '' @ exn_str e), st)) \<and>
   ((\<forall>e'. fst (call_handler x st command args) = Inl e' \<longrightarrow> caught e') \<longrightarrow>
      (\<exists>out. fst (execute_command x st command args) = Inr out)) \<and>
   (map_of (supported_commands x) command = Some h \<longrightarrow>
      (\<forall>e'. fst (h st args) = Inl e' \<longrightarrow> caught e') \<longrightarrow>
      (\<exists>out. execute_command x st command args = (Inr out, snd (h st args)))) \<and>
   (command \<notin> set command_names \<longrightarrow>
      execute_command x st command args
        = (Inr (''Command execution failed: command '' @ [CHR 0x27] @ command
                @ ''' is not supported!''), st))"
proof (intro conjI impI)
  assume "caught e"
  then show "input_error base (Inl e, st) = (Inr (base @ '': '' @ exn_str e), st)"
    by (rule input_error_caught)
next
  assume only: "\<forall>e'. fst (call_handler x st command args) = Inl e' \<longrightarrow> caught e'"
  show "\<exists>out. fst (execute_command x st command args) = Inr out"
  proof (cases "fst (execute_command x st command args)")
    case (Inl e')
    then have "fst (call_handler x st command args) = Inl e' \<and> \<not> caught e'"
      by (simp add: execute_command_def fst_input_error_Inl)
    with only show ?thesis by blast
  next
    case (Inr out)
    then show ?thesis by blast
  qed
next
  assume h: "map_of (supported_commands x) command = Some h"
    and only: "\<forall>e'. fst (h st args) = Inl e' \<longrightarrow> caught e'"
  obtain res st' where r: "h st args = (res, st')"
    by (cases "h st args")
  show "\<exists>out. execute_command x st command args = (Inr out, snd (h st args))"
  proof (cases res)
    case (Inl e')
    with only r have "caught e'" by simp
    with h r Inl show ?thesis
      by (simp add: execute_command_def call_handler_def input_error_caught)
  next
    case (Inr out)
    with h r show ?thesis
      by (simp add: execute_command_def call_handler_def input_error_Inr)
  qed
next
  assume "command \<notin> set command_names"
  then have "map_of (supported_commands x) command = None"
    by (simp add: map_of_commands_None)
  then show "execute_command x st command args
      = (Inr (''Command execution failed: command '' @ [CHR 0x27] @ command
              @ ''' is not supported!''), st)"
    by (simp add: execute_command_def call_handler_def input_error_caught)
qed

lemma say_hello_no_args: "say_hello st [] = (Inr ''How can I help you?'', st)"
  by (simp add: say_hello_def)

lemma map_of_hello: "map_of (supported_commands x) ''hello'' = Some say_hello"
  by (simp add: supported_commands_def)

lemma foo_unsupported: "''foo'' \<notin> set command_names"
  by (simp add: command_names_def)

theorem execute_command_returns_text_witness:
  "caught (ValueError ''bad input'') \<and>
   input_error ''Command 'add' failed'' (Inl (ValueError ''bad input''), empty_state)
     = (Inr ''Command 'add' failed: bad input'', empty_state) \<and>
   map_of (supported_commands sample_env) ''hello'' = Some say_hello \<and>
   (\<exists>out. execute_command sample_env empty_state ''hello'' [] = (Inr out, empty_state)) \<and>
   ''foo'' \<notin> set command_names \<and>
   (\<exists>out. fst (execute_command sample_env empty_state ''foo'' [''a'']) = Inr out) \<and>
   execute_command sample_env empty_state ''foo'' [''a'']
     = (Inr ''Command execution failed: command 'foo' is not supported!'', empty_state)"
proof -
  have c: "caught (ValueError ''bad input'')" by simp
  have u: "''foo'' \<notin> set command_names" by (rule foo_unsupported)
  have none: "map_of (supported_commands sample_env) ''foo'' = None"
    using u by (simp add: map_of_commands_None)
  have only: "\<forall>e'. fst (call_handler sample_env empty_state ''foo'' [''a'']) = Inl e' \<longrightarrow> caught e'"
    by (simp add: call_handler_def none)
  have hello: "\<forall>e'. fst (say_hello empty_state []) = Inl e' \<longrightarrow> caught e'"
    by (simp add: say_hello_no_args)
  note t1 = execute_command_returns_text
    [of "ValueError ''bad input''" "''Command 'add' failed''" empty_state sample_env "''foo''"
        "[''a'']" say_hello]
  note t2 = execute_command_returns_text
    [of "ValueError ''bad input''" "''Command 'add' failed''" empty_state sample_env "''hello''"
        "[]" say_hello]
  from t1 c
  have 1: "input_error ''Command 'add' failed'' (Inl (ValueError ''bad input''), empty_state)
     = (Inr ''Command 'add' failed: bad input'', empty_state)"
    by simp
  from t1 only
  have 2: "\<exists>out. fst (execute_command sample_env empty_state ''foo'' [''a'']) = Inr out"
    by blast
  from t2 map_of_hello hello
  have 3: "\<exists>out. execute_command sample_env empty_state ''hello'' [] = (Inr out, empty_state)"
    by (simp add: say_hello_no_args)
  from t1 u
  have 4: "execute_command sample_env empty_state ''foo'' [''a'']
     = (Inr ''Command execution failed: command 'foo' is not supported!'', empty_state)"
    by simp
  from c 1 map_of_hello 3 u 2 4 show ?thesis by blast
qed

section \<open>A blank line ends the bot\<close>

text \<open>
  C10: on an input line without a character that is not white space, \<open>parse_input\<close>
  raises \<^verbatim>\<open>ValueError\<close> (the unpacking of the empty split fails) and returns no pair; the
  loop of \<open>main\<close> prints its last message and raises the exception again, whatever
  lines would follow.
\<close>

theorem parse_input_blank_line:
  "list_all isspace s \<Longrightarrow>
     parse_input s = Inl (ValueError ''not enough values to unpack (expected at least 1, got 0)'') \<and>
     main x st (s # rest) out
       = Crashed (ValueError ''not enough values to unpack (expected at least 1, got 0)'')
           (out @ [''Unknown exception was encountered during execution: ''
                   @ ''not enough values to unpack (expected at least 1, got 0)''
                   @ ''The bot will stop ...''])"
  by (simp add: parse_input_def str_split_blank on_exception_def)

theorem parse_input_blank_line_witness:
  "list_all isspace '' '' \<and>
   parse_input '' '' = Inl (ValueError ''not enough values to unpack (expected at least 1, got 0)'') \<and>
   main sample_env empty_state ['' '', ''hello''] []
     = Crashed (ValueError ''not enough values to unpack (expected at least 1, got 0)'')
         [''Unknown exception was encountered during execution: not enough values to unpack (expected at least 1, got 0)The bot will stop ...'']"
proof -
  have b: "list_all isspace '' ''" by (simp add: isspace_def)
  from parse_input_blank_line [OF b, of sample_env empty_state "[''hello'']" "[]"] b
  show ?thesis by (simp del: main.simps)
qed

section \<open>Updating the phone of a contact without phones\<close>

lemma map_of_update_phone: "map_of (supported_commands x) ''update-phone'' = Some (change_contact x)"
  by (simp add: supported_commands_def)

text \<open>
  C8: when \<open>change_contact\<close> (the handler of \<^verbatim>\<open>update-phone\<close>) finds the contact and its
  list of phones is empty, \<^verbatim>\<open>record.phones[0]\<close> raises \<^verbatim>\<open>IndexError\<close>; \<open>input_error\<close> does
  not catch that class, so the exception leaves the handler and \<open>execute_command\<close>.
  The state is reached by adding a contact and deleting its only phone.
\<close>

theorem change_contact_index_error:
  "AddressBook_find x (address_book st) username = Inr rec \<Longrightarrow> phones rec = [] \<Longrightarrow>
     \<not> caught (IndexError ''list index out of range'') \<and>
     change_contact x st [username, phone] = (Inl (IndexError ''list index out of range''), st) \<and>
     execute_command x st ''update-phone'' [username, phone]
       = (Inl (IndexError ''list index out of range''), st)"
  by (simp add: change_contact_def execute_command_def call_handler_def map_of_update_phone
      input_error_passes)

theorem change_contact_index_error_witness:
  "snd (delete_phone sample_env (snd (add_contact sample_env empty_state [''alice'', ''1234567890'']))
          [''alice'', ''1234567890'']) = alice_no_phone \<and>
   AddressBook_find sample_env (address_book alice_no_phone) ''alice''
     = Inr \<lparr>name = ''alice'', phones = [], birthday = None, email = None, address = None\<rparr> \<and>
   change_contact sample_env alice_no_phone [''alice'', ''0987654321'']
     = (Inl (IndexError ''list index out of range''), alice_no_phone) \<and>
   execute_command sample_env alice_no_phone ''update-phone'' [''alice'', ''0987654321'']
     = (Inl (IndexError ''list index out of range''), alice_no_phone)"
proof -
  have f: "AddressBook_find sample_env (address_book alice_no_phone) ''alice''
     = Inr \<lparr>name = ''alice'', phones = [], birthday = None, email = None, address = None\<rparr>"
    by (simp add: alice_no_phone_def AddressBook_find_def)
  have r: "snd (delete_phone sample_env (snd (add_contact sample_env empty_state [''alice'', ''1234567890'']))
          [''alice'', ''1234567890'']) = alice_no_phone"
    by (simp add: add_alice delete_alice_phone)
  from change_contact_index_error [OF f, of "''0987654321''"] f r show ?thesis by simp
qed

section \<open>Adding a hobby with two arguments\<close>

text \<open>
  C2: the claim is that \<^verbatim>\<open>add-hobby\<close> with the note's name and one single-word hobby
  succeeds. The guard of \<open>add_hobby\<close> is \<^verbatim>\<open>len(args) <= 2\<close>, so the call with exactly
  two arguments is rejected with the message that asks for two arguments, and the
  note keeps its hobbies; the call goes through only from three arguments on.
\<close>

theorem add_hobby_two_arguments_rejected:
  "add_note sample_env empty_state [''proj1'', ''backend'']
     = (Inr ''Created note proj1 backend.'', proj1_state) \<and>
   add_hobby sample_env proj1_state [''proj1'', ''chess'']
     = (Inr (''Command 'add-hobby' failed: command expects an input of two arguments: ''
             @ ''name and hobby, separated by a space. Received: proj1 chess''), proj1_state) \<and>
   add_hobby sample_env proj1_state [''proj1'', ''chess'', ''club'']
     = (Inr ''Note proj1 updated with hobby: chess club.'',
        \<lparr>address_book = [],
         notes_book = [(''proj1'', \<lparr>note_name = ''proj1'', project_role = ''backend'',
                                    project_tasks = [], hobbies = [''chess club'']\<rparr>)]\<rparr>)"
proof (intro conjI)
  show "add_note sample_env empty_state [''proj1'', ''backend'']
     = (Inr ''Created note proj1 backend.'', proj1_state)"
    by (simp add: add_note_def NotesBook_add_note_def new_Note_def empty_state_def
        proj1_state_def input_error_Inr)
next
  show "add_hobby sample_env proj1_state [''proj1'', ''chess'']
     = (Inr (''Command 'add-hobby' failed: command expects an input of two arguments: ''
             @ ''name and hobby, separated by a space. Received: proj1 chess''), proj1_state)"
    by (simp add: add_hobby_def input_error_caught)
next
  show "add_hobby sample_env proj1_state [''proj1'', ''chess'', ''club'']
     = (Inr ''Note proj1 updated with hobby: chess club.'',
        \<lparr>address_book = [],
         notes_book = [(''proj1'', \<lparr>note_name = ''proj1'', project_role = ''backend'',
                                    project_tasks = [], hobbies = [''chess club'']\<rparr>)]\<rparr>)"
    by (simp add: add_hobby_def NotesBook_find_def Note_add_hobby_def store_note_def
        proj1_state_def input_error_Inr)
qed

section \<open>Adding under a name that is already used\<close>

lemma add_record_present:
  "name r \<in> fst ` set book \<Longrightarrow> AddressBook_add_record book r = (None, book)"
  by (simp add: AddressBook_add_record_def)

lemma add_record_absent:
  "name r \<notin> fst ` set book \<Longrightarrow> AddressBook_add_record book r = (Some r, book @ [(name r, r)])"
  by (simp add: AddressBook_add_record_def)

lemma add_note_present:
  "note_name n \<in> fst ` set book \<Longrightarrow> NotesBook_add_note book n = (None, book)"
  by (simp add: NotesBook_add_note_def)

lemma add_note_absent:
  "note_name n \<notin> fst ` set book \<Longrightarrow>
     NotesBook_add_note book n = (Some n, book @ [(note_name n, n)])"
  by (simp add: NotesBook_add_note_def)

lemma add_record_distinct:
  "distinct (map fst book) \<Longrightarrow> distinct (map fst (snd (AddressBook_add_record book r)))"
  by (auto simp: AddressBook_add_record_def)

lemma add_note_distinct:
  "distinct (map fst book) \<Longrightarrow> distinct (map fst (snd (NotesBook_add_note book n)))"
  by (auto simp: NotesBook_add_note_def)

lemma add_contact_present:
  assumes "username \<in> fst ` set (address_book st)"
  shows "add_contact x st [username, phone]
     = (Inr (''Command 'add' failed: ''
             @ (case validate_phone x phone of
                  Inl m \<Rightarrow> m
                | Inr v \<Rightarrow> ''user with username '' @ username @ '' already exist. ''
                          @ ''If you want to update number, please use 'change' command.'')), st)"
proof (cases "validate_phone x phone")
  case (Inl m)
  then show ?thesis
    by (simp add: add_contact_def new_Record_def input_error_caught)
next
  case (Inr v)
  then have "new_Record x username [phone]
      = Inr \<lparr>name = username, phones = [v], birthday = None, email = None, address = None\<rparr>"
    by (simp add: new_Record_def)
  with assms Inr show ?thesis
    by (simp add: add_contact_def AddressBook_add_record_def input_error_caught)
qed

lemma add_note_handler_present:
  assumes "nm \<in> fst ` set (notes_book st)"
  shows "add_note x st [nm, role]
     = (Inr (''Command 'add-note' failed: ''
             @ (''Note '' @ nm @ '' already exist. ''
                @ ''If you want to update project role, please use 'change-project-role' command.'')),
        st)"
  using assms
  by (simp add: add_note_def NotesBook_add_note_def new_Note_def input_error_caught)

text \<open>
  C3: \<open>add_record\<close> (and \<open>add_note\<close>) gives the sentinel \<open>None\<close> and the unchanged book
  when the name is already a key, and inserts the record and returns it otherwise, so
  that the keys stay distinct. The handlers of \<^verbatim>\<open>add\<close> and \<^verbatim>\<open>add-note\<close> then return a
  failure text and leave the state as it was.
\<close>

theorem add_existing_name_sentinel:
  "(name r \<in> fst ` set book \<longrightarrow> AddressBook_add_record book r = (None, book)) \<and>
   (name r \<notin> fst ` set book \<longrightarrow>
      AddressBook_add_record book r = (Some r, book @ [(name r, r)])) \<and>
   (distinct (map fst book) \<longrightarrow> distinct (map fst (snd (AddressBook_add_record book r)))) \<and>
   (note_name n \<in> fst ` set nbook \<longrightarrow> NotesBook_add_note nbook n = (None, nbook)) \<and>
   (note_name n \<notin> fst ` set nbook \<longrightarrow>
      NotesBook_add_note nbook n = (Some n, nbook @ [(note_name n, n)])) \<and>
   (distinct (map fst nbook) \<longrightarrow> distinct (map fst (snd (NotesBook_add_note nbook n)))) \<and>
   (username \<in> fst ` set (address_book st) \<longrightarrow>
      (\<exists>msg. add_contact x st [username, phone] = (Inr (''Command 'add' failed: '' @ msg), st))) \<and>
   (nm \<in> fst ` set (notes_book st) \<longrightarrow>
      (\<exists>msg. add_note x st [nm, role] = (Inr (''Command 'add-note' failed: '' @ msg), st)))"
proof (intro conjI impI)
  assume "name r \<in> fst ` set book"
  then show "AddressBook_add_record book r = (None, book)"
    by (rule add_record_present)
next
  assume "name r \<notin> fst ` set book"
  then show "AddressBook_add_record book r = (Some r, book @ [(name r, r)])"
    by (rule add_record_absent)
next
  assume "distinct (map fst book)"
  then show "distinct (map fst (snd (AddressBook_add_record book r)))"
    by (rule add_record_distinct)
next
  assume "note_name n \<in> fst ` set nbook"
  then show "NotesBook_add_note nbook n = (None, nbook)"
    by (rule add_note_present)
next
  assume "note_name n \<notin> fst ` set nbook"
  then show "NotesBook_add_note nbook n = (Some n, nbook @ [(note_name n, n)])"
    by (rule add_note_absent)
next
  assume "distinct (map fst nbook)"
  then show "distinct (map fst (snd (NotesBook_add_note nbook n)))"
    by (rule add_note_distinct)
next
  assume u: "username \<in> fst ` set (address_book st)"
  show "\<exists>msg. add_contact x st [username, phone]
      = (Inr (''Command 'add' failed: '' @ msg), st)"
    by (rule exI, rule add_contact_present [OF u])
next
  assume u: "nm \<in> fst ` set (notes_book st)"
  show "\<exists>msg. add_note x st [nm, role] = (Inr (''Command 'add-note' failed: '' @ msg), st)"
    by (rule exI, rule add_note_handler_present [OF u])
qed

lemma add_alice_again:
  "add_contact sample_env alice_state [''alice'', ''5555555555'']
     = (Inr (''Command 'add' failed: user with username alice already exist. ''
             @ ''If you want to update number, please use 'change' command.''), alice_state)"
  by (simp add: add_contact_def new_Record_def sample_env_def isdigit_def
      AddressBook_add_record_def alice_state_def input_error_caught)

theorem add_existing_name_sentinel_witness:
  "AddressBook_add_record (address_book alice_state)
      \<lparr>name = ''alice'', phones = [''5555555555''], birthday = None, email = None, address = None\<rparr>
     = (None, address_book alice_state) \<and>
   AddressBook_add_record (address_book alice_state)
      \<lparr>name = ''bob'', phones = [''5555555555''], birthday = None, email = None, address = None\<rparr>
     = (Some \<lparr>name = ''bob'', phones = [''5555555555''], birthday = None, email = None,
               address = None\<rparr>,
        address_book alice_state
        @ [(''bob'', \<lparr>name = ''bob'', phones = [''5555555555''], birthday = None, email = None,
                      address = None\<rparr>)]) \<and>
   NotesBook_add_note (notes_book proj1_state) (new_Note ''proj1'' ''frontend'')
     = (None, notes_book proj1_state) \<and>
   NotesBook_add_note (notes_book proj1_state) (new_Note ''proj2'' ''frontend'')
     = (Some (new_Note ''proj2'' ''frontend''),
        notes_book proj1_state @ [(''proj2'', new_Note ''proj2'' ''frontend'')]) \<and>
   distinct (map fst (snd (AddressBook_add_record (address_book alice_state)
      \<lparr>name = ''bob'', phones = [''5555555555''], birthday = None, email = None,
         address = None\<rparr>))) \<and>
   distinct (map fst (snd (NotesBook_add_note (notes_book proj1_state)
      (new_Note ''proj2'' ''frontend'')))) \<and>
   (\<exists>msg. add_contact sample_env alice_state [''alice'', ''5555555555'']
      = (Inr (''Command 'add' failed: '' @ msg), alice_state)) \<and>
   (\<exists>msg. add_note sample_env proj1_state [''proj1'', ''frontend'']
      = (Inr (''Command 'add-note' failed: '' @ msg), proj1_state))"
proof -
  let ?a = "\<lparr>name = ''alice'', phones = [''5555555555''], birthday = None, email = None,
              address = None\<rparr>"
  let ?b = "\<lparr>name = ''bob'', phones = [''5555555555''], birthday = None, email = None,
              address = None\<rparr>"
  have k1: "name ?a \<in> fst ` set (address_book alice_state)"
    by (simp add: alice_state_def)
  have k2: "name ?b \<notin> fst ` set (address_book alice_state)"
    by (simp add: alice_state_def)
  have k3: "note_name (new_Note ''proj1'' ''frontend'') \<in> fst ` set (notes_book proj1_state)"
    by (simp add: proj1_state_def new_Note_def)
  have k4: "note_name (new_Note ''proj2'' ''frontend'') \<notin> fst ` set (notes_book proj1_state)"
    by (simp add: proj1_state_def new_Note_def)
  have d1: "distinct (map fst (address_book alice_state))"
    by (simp add: alice_state_def)
  have d2: "distinct (map fst (notes_book proj1_state))"
    by (simp add: proj1_state_def)
  have u1: "''alice'' \<in> fst ` set (address_book alice_state)"
    by (simp add: alice_state_def)
  have u2: "''proj1'' \<in> fst ` set (notes_book proj1_state)"
    by (simp add: proj1_state_def)
  have n2: "note_name (new_Note ''proj2'' ''frontend'') = ''proj2''"
    by (simp add: new_Note_def)
  note t1 = add_existing_name_sentinel
    [of ?a "address_book alice_state" "new_Note ''proj1'' ''frontend''" "notes_book proj1_state"
        "''alice''" alice_state sample_env "''5555555555''" "''proj1''" "''frontend''"]
  note t2 = add_existing_name_sentinel
    [of ?b "address_book alice_state" "new_Note ''proj2'' ''frontend''" "notes_book proj1_state"
        "''alice''" proj1_state sample_env "''5555555555''" "''proj1''" "''frontend''"]
  from t1 k1 have c1: "AddressBook_add_record (address_book alice_state) ?a
      = (None, address_book alice_state)"
    by blast
  from t2 k2 have c2: "AddressBook_add_record (address_book alice_state) ?b
      = (Some ?b, address_book alice_state @ [(''bob'', ?b)])"
    by simp
  from t1 k3 have c3: "NotesBook_add_note (notes_book proj1_state) (new_Note ''proj1'' ''frontend'')
      = (None, notes_book proj1_state)"
    by blast
  from t2 k4 n2
  have c4: "NotesBook_add_note (notes_book proj1_state) (new_Note ''proj2'' ''frontend'')
      = (Some (new_Note ''proj2'' ''frontend''),
         notes_book proj1_state @ [(''proj2'', new_Note ''proj2'' ''frontend'')])"
    by simp
  from t2 d1 have c5: "distinct (map fst (snd (AddressBook_add_record (address_book alice_state) ?b)))"
    by blast
  from t2 d2 have c6: "distinct (map fst (snd (NotesBook_add_note (notes_book proj1_state)
      (new_Note ''proj2'' ''frontend''))))"
    by blast
  from t1 u1 have c7: "\<exists>msg. add_contact sample_env alice_state [''alice'', ''5555555555'']
      = (Inr (''Command 'add' failed: '' @ msg), alice_state)"
    by blast
  from t2 u2 have c8: "\<exists>msg. add_note sample_env proj1_state [''proj1'', ''frontend'']
      = (Inr (''Command 'add-note' failed: '' @ msg), proj1_state)"
    by blast
  from c1 c2 c3 c4 c5 c6 c7 c8 show ?thesis by blast
qed

section \<open>Clearing an optional field twice\<close>

lemma find_after_store:
  "AddressBook_find x (address_book (store_record st k r)) k = Inr r"
  by (simp add: AddressBook_find_def store_record_def AList.update_conv')

lemma store_record_twice: "store_record (store_record st k r) k r = store_record st k r"
  by (simp add: store_record_def)

lemma delete_email_found:
  "AddressBook_find x (address_book st) username = Inr rec \<Longrightarrow>
     delete_email x st [username]
       = (Inr (''Email of contact  '' @ username @ '' removed from Address book.''),
          store_record st username (rec\<lparr>email := None\<rparr>))"
  by (simp add: delete_email_def Record_remove_email_def input_error_Inr)

lemma delete_address_found:
  "AddressBook_find x (address_book st) username = Inr rec \<Longrightarrow>
     delete_address x st [username]
       = (Inr (''Address of contact  '' @ username @ '' removed from Address book.''),
          store_record st username (rec\<lparr>address := None\<rparr>))"
  by (simp add: delete_address_def Record_remove_address_def input_error_Inr)

lemma delete_birthday_found:
  "AddressBook_find x (address_book st) username = Inr rec \<Longrightarrow>
     delete_birthday x st [username]
       = (Inr (''Birthday of contact '' @ username @ '' removed from Address book.''),
          store_record st username (rec\<lparr>birthday := None\<rparr>))"
  by (simp add: delete_birthday_def Record_remove_birthday_def input_error_Inr)

text \<open>
  C7: \<open>remove_email\<close>, \<open>remove_address\<close> and \<open>remove_birthday\<close> never raise, and a
  second call in a row leaves the record as the first call left it. For a contact
  that exists, the handlers \<^verbatim>\<open>delete-email\<close>, \<^verbatim>\<open>delete-address\<close> and \<^verbatim>\<open>delete-birthday\<close>
  succeed twice in a row, and the second call leaves the state unchanged.
\<close>

theorem remove_optional_field_idempotent:
  "(\<exists>r'. Record_remove_email r = Inr r' \<and> Record_remove_email r' = Inr r') \<and>
   (\<exists>r'. Record_remove_address r = Inr r' \<and> Record_remove_address r' = Inr r') \<and>
   (\<exists>r'. Record_remove_birthday r = Inr r' \<and> Record_remove_birthday r' = Inr r') \<and>
   (AddressBook_find x (address_book st) username = Inr rec \<longrightarrow>
      (\<exists>out st'. delete_email x st [username] = (Inr out, st') \<and>
                 delete_email x st' [username] = (Inr out, st')) \<and>
      (\<exists>out st'. delete_address x st [username] = (Inr out, st') \<and>
                 delete_address x st' [username] = (Inr out, st')) \<and>
      (\<exists>out st'. delete_birthday x st [username] = (Inr out, st') \<and>
                 delete_birthday x st' [username] = (Inr out, st')))"
proof (intro conjI impI)
  show "\<exists>r'. Record_remove_email r = Inr r' \<and> Record_remove_email r' = Inr r'"
    by (simp add: Record_remove_email_def)
  show "\<exists>r'. Record_remove_address r = Inr r' \<and> Record_remove_address r' = Inr r'"
    by (simp add: Record_remove_address_def)
  show "\<exists>r'. Record_remove_birthday r = Inr r' \<and> Record_remove_birthday r' = Inr r'"
    by (simp add: Record_remove_birthday_def)
next
  assume f: "AddressBook_find x (address_book st) username = Inr rec"
  let ?st = "store_record st username (rec\<lparr>email := None\<rparr>)"
  have "delete_email x ?st [username]
      = (Inr (''Email of contact  '' @ username @ '' removed from Address book.''), ?st)"
    by (simp add: delete_email_found [OF find_after_store] store_record_twice)
  with delete_email_found [OF f]
  show "\<exists>out st'. delete_email x st [username] = (Inr out, st') \<and>
                  delete_email x st' [username] = (Inr out, st')"
    by blast
next
  assume f: "AddressBook_find x (address_book st) username = Inr rec"
  let ?st = "store_record st username (rec\<lparr>address := None\<rparr>)"
  have "delete_address x ?st [username]
      = (Inr (''Address of contact  '' @ username @ '' removed from Address book.''), ?st)"
    by (simp add: delete_address_found [OF find_after_store] store_record_twice)
  with delete_address_found [OF f]
  show "\<exists>out st'. delete_address x st [username] = (Inr out, st') \<and>
                  delete_address x st' [username] = (Inr out, st')"
    by blast
next
  assume f: "AddressBook_find x (address_book st) username = Inr rec"
  let ?st = "store_record st username (rec\<lparr>birthday := None\<rparr>)"
  have "delete_birthday x ?st [username]
      = (Inr (''Birthday of contact '' @ username @ '' removed from Address book.''), ?st)"
    by (simp add: delete_birthday_found [OF find_after_store] store_record_twice)
  with delete_birthday_found [OF f]
  show "\<exists>out st'. delete_birthday x st [username] = (Inr out, st') \<and>
                  delete_birthday x st' [username] = (Inr out, st')"
    by blast
qed

theorem remove_optional_field_idempotent_witness:
  "AddressBook_find sample_env (address_book alice_state) ''alice''
     = Inr \<lparr>name = ''alice'', phones = [''1234567890''], birthday = None, email = None,
            address = None\<rparr> \<and>
   (\<exists>out st'. delete_email sample_env alice_state [''alice''] = (Inr out, st') \<and>
              delete_email sample_env st' [''alice''] = (Inr out, st')) \<and>
   (\<exists>out st'. delete_address sample_env alice_state [''alice''] = (Inr out, st') \<and>
              delete_address sample_env st' [''alice''] = (Inr out, st')) \<and>
   (\<exists>out st'. delete_birthday sample_env alice_state [''alice''] = (Inr out, st') \<and>
              delete_birthday sample_env st' [''alice''] = (Inr out, st'))"
proof -
  have f: "AddressBook_find sample_env (address_book alice_state) ''alice''
     = Inr \<lparr>name = ''alice'', phones = [''1234567890''], birthday = None, email = None,
            address = None\<rparr>"
    by (simp add: AddressBook_find_def alice_state_def)
  from remove_optional_field_idempotent
    [of "\<lparr>name = ''alice'', phones = [''1234567890''], birthday = None, email = None,
           address = None\<rparr>" sample_env alice_state "''alice''"
        "\<lparr>name = ''alice'', phones = [''1234567890''], birthday = None, email = None,
           address = None\<rparr>"] f
  show ?thesis by blast
qed

section \<open>What the handlers say when the contact is missing\<close>

lemma add_birthday_missing:
  "username \<notin> fst ` set (address_book st) \<Longrightarrow>
     add_birthday x st [username, a]
       = (Inr (''Command 'add-birthday' failed: user with username '' @ username
               @ '' doesn't exist. If you want to add number, please use 'add' command.''), st)"
  by (simp add: add_birthday_def find_None input_error_caught)

lemma change_contact_missing:
  "username \<notin> fst ` set (address_book st) \<Longrightarrow>
     change_contact x st [username, a]
       = (Inr (''Command 'update' failed: user with username '' @ username
               @ '' doesn't exist. If you want to add number, please use 'add' command.''), st)"
  by (simp add: change_contact_def find_None input_error_caught)

lemma show_birthday_missing:
  "username \<notin> fst ` set (address_book st) \<Longrightarrow>
     show_birthday x st [username]
       = (Inr (''Command 'show-birthday' failed: user with username '' @ username
               @ '' doesn't exist. Try another username.''), st)"
  by (simp add: show_birthday_def find_None input_error_caught)

lemma get_contact_missing:
  "username \<notin> fst ` set (address_book st) \<Longrightarrow>
     get_contact x st [username]
       = (Inr (''Command 'phone' failed: user with username '' @ username
               @ '' doesn't exist. Try another username.''), st)"
  by (simp add: get_contact_def find_None input_error_caught)

lemma add_address_missing:
  "username \<notin> fst ` set (address_book st) \<Longrightarrow>
     \<exists>advice. add_address x st [username, a]
       = (Inr (''Command 'add-address' failed: user with username '' @ username
               @ '' doesn't exist. '' @ advice), st)"
  by (simp add: add_address_def find_None input_error_caught)

lemma add_email_missing:
  "username \<notin> fst ` set (address_book st) \<Longrightarrow>
     \<exists>advice. add_email x st [username, a]
       = (Inr (''Command 'add-email' failed: user with username '' @ username
               @ '' doesn't exist. '' @ advice), st)"
  by (simp add: add_email_def find_None input_error_caught)

lemma delete_phone_missing:
  "username \<notin> fst ` set (address_book st) \<Longrightarrow>
     delete_phone x st [username, a]
       = (Inr (''Command 'delete-phone' failed: user with username '' @ username
               @ '' doesn`t exist. Try another username''), st)"
  by (simp add: delete_phone_def find_None input_error_caught)

lemma delete_email_missing:
  "username \<notin> fst ` set (address_book st) \<Longrightarrow>
     delete_email x st [username]
       = (Inr (''Command 'delete-email' failed: user with username '' @ username
               @ '' doesn`t exist. Try another username''), st)"
  by (simp add: delete_email_def find_None input_error_caught)

lemma delete_address_missing:
  "username \<notin> fst ` set (address_book st) \<Longrightarrow>
     delete_address x st [username]
       = (Inr (''Command 'delete-address' failed: user with username '' @ username
               @ '' doesn`t exist. Try another username''), st)"
  by (simp add: delete_address_def find_None input_error_caught)

lemma delete_birthday_missing:
  "username \<notin> fst ` set (address_book st) \<Longrightarrow>
     delete_birthday x st [username]
       = (Inr (''Command 'delete-birthday' failed: user with username '' @ username
               @ '' doesn`t exist. Try another username''), st)"
  by (simp add: delete_birthday_def find_None input_error_caught)

lemma update_email_missing:
  "username \<notin> fst ` set (address_book st) \<Longrightarrow>
     update_email x st [username, a]
       = (Inr (''Command 'update-email' failed: user with username '' @ username
               @ '' doesn`t exist. Try another username''), st)"
  by (simp add: update_email_def find_None input_error_caught)

lemma update_address_missing:
  "username \<notin> fst ` set (address_book st) \<Longrightarrow>
     update_address x st [username, a]
       = (Inr (''Command 'update-address' failed: user with username '' @ username
               @ '' doesn`t exist. Try another username''), st)"
  by (simp add: update_address_def find_None input_error_caught)

lemma update_birthday_missing:
  "username \<notin> fst ` set (address_book st) \<Longrightarrow>
     update_birthday x st [username, a]
       = (Inr (''Command 'update-birthday' failed: user with username '' @ username
               @ '' doesn`t exist. Try another username''), st)"
  by (simp add: update_birthday_def find_None input_error_caught)

lemma bob_missing: "''bob'' \<notin> fst ` set (address_book empty_state)"
  by (simp add: empty_state_def)

text \<open>
  C6, as stated, fails: the handler of \<^verbatim>\<open>phone\<close> catches the failure of \<open>find\<close> for the
  missing name \<^verbatim>\<open>bob\<close> and answers with a text in which \<^verbatim>\<open>add\<close> does not occur at all.
\<close>

theorem get_contact_message_counterexample:
  "AddressBook_find sample_env (address_book empty_state) ''bob''
     = Inl (KeyError ([CHR 0x27] @ ''bob'' @ [CHR 0x27])) \<and>
   get_contact sample_env empty_state [''bob'']
     = (Inr ''Command 'phone' failed: user with username bob doesn't exist. Try another username.'',
        empty_state) \<and>
   \<not> contains ''add''
       ''Command 'phone' failed: user with username bob doesn't exist. Try another username.''"
proof (intro conjI)
  show "AddressBook_find sample_env (address_book empty_state) ''bob''
     = Inl (KeyError ([CHR 0x27] @ ''bob'' @ [CHR 0x27]))"
    by (simp add: find_None [OF bob_missing] sample_env_def)
next
  show "get_contact sample_env empty_state [''bob'']
     = (Inr ''Command 'phone' failed: user with username bob doesn't exist. Try another username.'',
        empty_state)"
    by (simp add: get_contact_missing [OF bob_missing])
next
  show "\<not> contains ''add''
       ''Command 'phone' failed: user with username bob doesn't exist. Try another username.''"
    by simp
qed

text \<open>
  C6, amended: for a name that is not a key of the book, \<open>find\<close> fails with
  \<^verbatim>\<open>NotFoundError\<close> (a \<^verbatim>\<open>KeyError\<close>), and every handler that catches this failure returns
  a failure text that names the missing user and leaves the state unchanged. The text
  refers to the \<^verbatim>\<open>add\<close> command in \<^verbatim>\<open>add-birthday\<close> and \<^verbatim>\<open>update-phone\<close>; in
  \<^verbatim>\<open>phone\<close>, \<^verbatim>\<open>show-birthday\<close>, the \<^verbatim>\<open>delete-\<close> and the \<^verbatim>\<open>update-\<close> commands of a field it
  asks for another username.
\<close>

theorem find_missing_name_messages:
  assumes "username \<notin> fst ` set (address_book st)"
  shows
   "AddressBook_find x (address_book st) username = Inl (KeyError (not_found x ''find'' username)) \<and>
    add_birthday x st [username, a]
      = (Inr (''Command 'add-birthday' failed: user with username '' @ username
              @ '' doesn't exist. If you want to add number, please use 'add' command.''), st) \<and>
    change_contact x st [username, a]
      = (Inr (''Command 'update' failed: user with username '' @ username
              @ '' doesn't exist. If you want to add number, please use 'add' command.''), st) \<and>
    show_birthday x st [username]
      = (Inr (''Command 'show-birthday' failed: user with username '' @ username
              @ '' doesn't exist. Try another username.''), st) \<and>
    get_contact x st [username]
      = (Inr (''Command 'phone' failed: user with username '' @ username
              @ '' doesn't exist. Try another username.''), st) \<and>
    (\<exists>advice. add_address x st [username, a]
      = (Inr (''Command 'add-address' failed: user with username '' @ username
              @ '' doesn't exist. '' @ advice), st)) \<and>
    (\<exists>advice. add_email x st [username, a]
      = (Inr (''Command 'add-email' failed: user with username '' @ username
              @ '' doesn't exist. '' @ advice), st)) \<and>
    delete_phone x st [username, a]
      = (Inr (''Command 'delete-phone' failed: user with username '' @ username
              @ '' doesn`t exist. Try another username''), st) \<and>
    delete_email x st [username]
      = (Inr (''Command 'delete-email' failed: user with username '' @ username
              @ '' doesn`t exist. Try another username''), st) \<and>
    delete_address x st [username]
      = (Inr (''Command 'delete-address' failed: user with username '' @ username
              @ '' doesn`t exist. Try another username''), st) \<and>
    delete_birthday x st [username]
      = (Inr (''Command 'delete-birthday' failed: user with username '' @ username
              @ '' doesn`t exist. Try another username''), st) \<and>
    update_email x st [username, a]
      = (Inr (''Command 'update-email' failed: user with username '' @ username
              @ '' doesn`t exist. Try another username''), st) \<and>
    update_address x st [username, a]
      = (Inr (''Command 'update-address' failed: user with username '' @ username
              @ '' doesn`t exist. Try another username''), st) \<and>
    update_birthday x st [username, a]
      = (Inr (''Command 'update-birthday' failed: user with username '' @ username
              @ '' doesn`t exist. Try another username''), st)"
  by (intro conjI)
     (rule find_None [OF assms] add_birthday_missing [OF assms] change_contact_missing [OF assms]
        show_birthday_missing [OF assms] get_contact_missing [OF assms]
        add_address_missing [OF assms] add_email_missing [OF assms]
        delete_phone_missing [OF assms] delete_email_missing [OF assms]
        delete_address_missing [OF assms] delete_birthday_missing [OF assms]
        update_email_missing [OF assms] update_address_missing [OF assms]
        update_birthday_missing [OF assms])+

theorem find_missing_name_messages_witness:
  "''bob'' \<notin> fst ` set (address_book empty_state) \<and>
   add_birthday sample_env empty_state [''bob'', ''1990.03.05'']
     = (Inr (''Command 'add-birthday' failed: user with username bob doesn't exist. ''
             @ ''If you want to add number, please use 'add' command.''), empty_state) \<and>
   change_contact sample_env empty_state [''bob'', ''1990.03.05'']
     = (Inr (''Command 'update' failed: user with username bob doesn't exist. ''
             @ ''If you want to add number, please use 'add' command.''), empty_state) \<and>
   delete_email sample_env empty_state [''bob'']
     = (Inr ''Command 'delete-email' failed: user with username bob doesn`t exist. Try another username'',
        empty_state)"
  using find_missing_name_messages [OF bob_missing, of sample_env "''1990.03.05''"] bob_missing
  by simp

section \<open>The argument of the birthdays command\<close>

lemma collect_birthdays_negative: "n < 0 \<Longrightarrow> collect_birthdays tdy n rs gs = gs"
  by (induction rs arbitrary: gs) (auto simp: in_window_def split: option.splits)

lemma get_birthdays_negative: "n < 0 \<Longrightarrow> get_birthdays_per_days tdy book n = []"
  by (simp add: get_birthdays_per_days_def collect_birthdays_negative)

lemma sample_limit: "int_max_str_digits sample_env = 4300"
  by (simp add: sample_env_def)

lemma py_int_minus_three: "py_int 4300 ''-3'' = Some (- 3)"
  by (simp add: py_int_def int_space_def isdigit_def digit_val_def)

lemma py_int_abc: "py_int 4300 ''abc'' = None"
  by (simp add: py_int_def int_space_def isdigit_def)

lemma py_int_separator: "py_int 4300 [CHR 0x1C, CHR ''5''] = None"
  by (simp add: py_int_def int_space_def isdigit_def)

lemma py_int_blanks: "py_int 4300 '' +1_000 '' = Some 1000"
  by (simp add: py_int_def int_space_def isdigit_def digit_val_def)

text \<open>
  C5, as stated, fails: \<^verbatim>\<open>-3\<close> is not a non-negative integer, yet \<^verbatim>\<open>int\<close> accepts it, the
  handler raises nothing before the call, passes \<open>- 3\<close> to
  \<^verbatim>\<open>get_birthdays_per_days\<close> and returns the text of an empty result.
\<close>

theorem birthdays_negative_counterexample:
  "birthdays_days sample_env [''-3''] = Inr (- 3) \<and>
   birthdays sample_env alice_state [''-3''] = (Inr ''No contacts found'', alice_state)"
  by (simp add: birthdays_days_def birthdays_def sample_limit py_int_minus_three
      get_birthdays_negative input_error_Inr)

text \<open>
  C5, amended: for every argument that \<^verbatim>\<open>int\<close> rejects, the handler fails with its
  message about a valid integer before \<^verbatim>\<open>get_birthdays_per_days\<close> is called; an argument
  that \<^verbatim>\<open>int\<close> accepts, a negative one included, is passed on. A negative number of days
  gives no matches, so the handler returns \<^verbatim>\<open>No contacts found\<close> and nothing crashes.
\<close>

theorem birthdays_argument_check:
  "(py_int (int_max_str_digits x) a = None \<longrightarrow>
      birthdays_days x [a]
        = Inl (CommandOperationalError
            ''Command expects a valid integer - number of days, please recheck your input.'') \<and>
      birthdays x st [a]
        = (Inr (''Command 'birthdays' failed: Command expects a valid integer - ''
                @ ''number of days, please recheck your input.''), st)) \<and>
   (py_int (int_max_str_digits x) a = Some n \<longrightarrow> birthdays_days x [a] = Inr n) \<and>
   (n < 0 \<longrightarrow> get_birthdays_per_days tdy book n = []) \<and>
   (py_int (int_max_str_digits x) a = Some n \<and> n < 0 \<longrightarrow>
      birthdays x st [a] = (Inr ''No contacts found'', st))"
  by (simp add: birthdays_days_def birthdays_def get_birthdays_negative input_error_Inr
      input_error_caught)

theorem birthdays_argument_check_witness:
  "py_int (int_max_str_digits sample_env) ''abc'' = None \<and>
   birthdays_days sample_env [''abc'']
     = Inl (CommandOperationalError
         ''Command expects a valid integer - number of days, please recheck your input.'') \<and>
   birthdays sample_env alice_state [''abc'']
     = (Inr (''Command 'birthdays' failed: Command expects a valid integer - ''
             @ ''number of days, please recheck your input.''), alice_state) \<and>
   py_int (int_max_str_digits sample_env) [CHR 0x1C, CHR ''5''] = None \<and>
   birthdays sample_env alice_state [[CHR 0x1C, CHR ''5'']]
     = (Inr (''Command 'birthdays' failed: Command expects a valid integer - ''
             @ ''number of days, please recheck your input.''), alice_state) \<and>
   py_int (int_max_str_digits sample_env) ''-3'' = Some (- 3) \<and>
   birthdays_days sample_env [''-3''] = Inr (- 3) \<and>
   get_birthdays_per_days (today sample_env) (address_book alice_state) (- 3) = [] \<and>
   birthdays sample_env alice_state [''-3''] = (Inr ''No contacts found'', alice_state)"
proof -
  have abc: "py_int (int_max_str_digits sample_env) ''abc'' = None"
    by (simp add: sample_limit py_int_abc)
  have sep: "py_int (int_max_str_digits sample_env) [CHR 0x1C, CHR ''5''] = None"
    by (simp add: sample_limit py_int_separator)
  have neg: "py_int (int_max_str_digits sample_env) ''-3'' = Some (- 3)"
    by (simp add: sample_limit py_int_minus_three)
  have lt: "(- 3 :: int) < 0"
    by simp
  note t1 = birthdays_argument_check
    [of sample_env "''abc''" alice_state "- 3" "today sample_env" "address_book alice_state"]
  note t2 = birthdays_argument_check
    [of sample_env "[CHR 0x1C, CHR ''5'']" alice_state "- 3" "today sample_env"
        "address_book alice_state"]
  note t3 = birthdays_argument_check
    [of sample_env "''-3''" alice_state "- 3" "today sample_env" "address_book alice_state"]
  from t1 abc
  have 1: "birthdays_days sample_env [''abc'']
     = Inl (CommandOperationalError
         ''Command expects a valid integer - number of days, please recheck your input.'')"
    and 2: "birthdays sample_env alice_state [''abc'']
     = (Inr (''Command 'birthdays' failed: Command expects a valid integer - ''
             @ ''number of days, please recheck your input.''), alice_state)"
    by blast+
  from t2 sep
  have 3: "birthdays sample_env alice_state [[CHR 0x1C, CHR ''5'']]
     = (Inr (''Command 'birthdays' failed: Command expects a valid integer - ''
             @ ''number of days, please recheck your input.''), alice_state)"
    by blast
  from t3 neg have 4: "birthdays_days sample_env [''-3''] = Inr (- 3)"
    by blast
  from t3 lt
  have 5: "get_birthdays_per_days (today sample_env) (address_book alice_state) (- 3) = []"
    by blast
  from t3 neg lt
  have 6: "birthdays sample_env alice_state [''-3''] = (Inr ''No contacts found'', alice_state)"
    by blast
  from abc 1 2 sep 3 neg 4 5 6 show ?thesis
    by (intro conjI) assumption+
qed

section \<open>The calendar\<close>

lemma days_in_month_pos: "0 < days_in_month y m"
  by (simp add: days_in_month_def)

lemma days_before_month_Suc:
  "1 \<le> m \<Longrightarrow> days_before_month y (m + 1) = days_before_month y m + days_in_month y m"
proof -
  assume "1 \<le> m"
  then have "[1..m] = [1..m - 1] @ [m]"
    by (simp add: upto_rec2)
  then show ?thesis
    by (simp add: days_before_month_def)
qed

lemma days_before_month_mono:
  "1 \<le> m1 \<Longrightarrow> m1 \<le> m2 \<Longrightarrow> days_before_month y m1 \<le> days_before_month y m2"
proof (induction "nat (m2 - m1)" arbitrary: m2)
  case 0
  then show ?case by simp
next
  case (Suc k)
  then have k: "k = nat ((m2 - 1) - m1)" and le: "m1 \<le> m2 - 1" and one: "1 \<le> m2 - 1"
    by linarith+
  from Suc.hyps(1) [OF k Suc.prems(1) le]
  have "days_before_month y m1 \<le> days_before_month y (m2 - 1)" .
  also have "\<dots> \<le> days_before_month y (m2 - 1) + days_in_month y (m2 - 1)"
    using days_in_month_pos [of y "m2 - 1"] by simp
  also have "\<dots> = days_before_month y m2"
    using days_before_month_Suc [OF one, of y] by simp
  finally show ?case .
qed

lemma days_before_month_step:
  assumes "1 \<le> m1" and "m1 < m2"
  shows "days_before_month y m1 + days_in_month y m1 \<le> days_before_month y m2"
proof -
  have "days_before_month y m1 + days_in_month y m1 = days_before_month y (m1 + 1)"
    using days_before_month_Suc [OF assms(1), of y] by simp
  also have "\<dots> \<le> days_before_month y m2"
    using assms by (intro days_before_month_mono) simp_all
  finally show ?thesis .
qed

lemma days_before_december: "days_before_month y 12 = (if is_leap y then 335 else 334)"
  by (simp add: days_before_month_def days_in_month_def upto_rec1)

lemma div_step:
  fixes y k :: int
  assumes "0 < k"
  shows "y div k = (y - 1) div k + (if y mod k = 0 then 1 else 0)"
proof -
  define q where "q = (y - 1) div k"
  define r where "r = (y - 1) mod k"
  have y: "y = k * q + r + 1"
    by (simp add: q_def r_def)
  have r: "0 \<le> r" "r < k"
    using assms by (simp_all add: r_def)
  show ?thesis
  proof (cases "r + 1 = k")
    case True
    with y have eq: "y = k * (q + 1) + 0"
      by (simp add: algebra_simps)
    from int_div_pos_eq [OF eq] int_mod_pos_eq [OF eq] assms show ?thesis
      by (simp add: q_def)
  next
    case False
    with r have b: "0 \<le> r + 1" "r + 1 < k"
      by simp_all
    from y have eq: "y = k * q + (r + 1)"
      by simp
    from r have "r + 1 \<noteq> 0"
      by simp
    with int_div_pos_eq [OF eq b] int_mod_pos_eq [OF eq b] show ?thesis
      by (simp add: q_def)
  qed
qed

lemma mod_400_100: "(y::int) mod 400 = 0 \<Longrightarrow> y mod 100 = 0"
  using dvd_trans [of "100::int" 400 y] by (simp add: mod_eq_0_iff_dvd)

lemma mod_100_4: "(y::int) mod 100 = 0 \<Longrightarrow> y mod 4 = 0"
  using dvd_trans [of "4::int" 100 y] by (simp add: mod_eq_0_iff_dvd)

lemma days_before_year_Suc:
  "days_before_year (y + 1) = days_before_year y + (if is_leap y then 366 else 365)"
proof -
  have d4: "y div 4 = (y - 1) div 4 + (if y mod 4 = 0 then 1 else 0)"
    by (rule div_step) simp
  have d100: "y div 100 = (y - 1) div 100 + (if y mod 100 = 0 then 1 else 0)"
    by (rule div_step) simp
  have d400: "y div 400 = (y - 1) div 400 + (if y mod 400 = 0 then 1 else 0)"
    by (rule div_step) simp
  have eq: "days_before_year (y + 1) = y * 365 + y div 4 - y div 100 + y div 400"
    by (simp add: days_before_year_def)
  show ?thesis
  proof (cases "y mod 4 = 0")
    case False
    then have c: "y mod 100 \<noteq> 0"
      using mod_100_4 [of y] by argo
    then have "y mod 400 \<noteq> 0"
      using mod_400_100 [of y] by argo
    with c False show ?thesis
      unfolding eq d4 d100 d400 by (simp add: days_before_year_def is_leap_def algebra_simps)
  next
    case four: True
    show ?thesis
    proof (cases "y mod 100 = 0")
      case False
      then have "y mod 400 \<noteq> 0"
        using mod_400_100 [of y] by argo
      with four False show ?thesis
        unfolding eq d4 d100 d400 by (simp add: days_before_year_def is_leap_def algebra_simps)
    next
      case hundred: True
      show ?thesis
      proof (cases "y mod 400 = 0")
        case False
        with four hundred show ?thesis
          unfolding eq d4 d100 d400
          by (simp add: days_before_year_def is_leap_def algebra_simps)
      next
        case True
        with four hundred show ?thesis
          unfolding eq d4 d100 d400
          by (simp add: days_before_year_def is_leap_def algebra_simps)
      qed
    qed
  qed
qed

lemma day_of_year_bound:
  assumes "valid_date d"
  shows "days_before_month (year d) (month d) + day d \<le> (if is_leap (year d) then 366 else 365)"
proof (cases "month d < 12")
  case True
  with assms have "days_before_month (year d) (month d) + days_in_month (year d) (month d)
      \<le> days_before_month (year d) 12"
    by (intro days_before_month_step) (simp_all add: valid_date_def)
  with assms show ?thesis
    by (simp add: valid_date_def days_before_december split: if_splits)
next
  case False
  with assms have "month d = 12"
    by (simp add: valid_date_def)
  with assms show ?thesis
    by (simp add: valid_date_def days_before_december days_in_month_def)
qed

lemma toordinal_next_day:
  assumes "valid_date d"
  shows "toordinal (next_day d) = toordinal d + 1"
proof (cases "day d < days_in_month (year d) (month d)")
  case True
  then show ?thesis
    by (simp add: next_day_def toordinal_def)
next
  case False
  with assms have last: "day d = days_in_month (year d) (month d)"
    by (simp add: valid_date_def)
  show ?thesis
  proof (cases "month d < 12")
    case True
    from assms have "1 \<le> month d"
      by (simp add: valid_date_def)
    from days_before_month_Suc [OF this, of "year d"] last True False show ?thesis
      by (simp add: next_day_def toordinal_def)
  next
    case noDec: False
    with assms have m: "month d = 12"
      by (simp add: valid_date_def)
    have "days_before_month (year d + 1) 1 = 0"
      by (simp add: days_before_month_def)
    with m last False show ?thesis
      by (simp add: next_day_def toordinal_def days_before_year_Suc days_before_december
          days_in_month_def)
  qed
qed

lemma valid_next_day:
  assumes "valid_date d"
  shows "valid_date (next_day d)"
  using assms days_in_month_pos [of "year d" "month d + 1"] days_in_month_pos [of "year d + 1" 1]
  by (auto simp: next_day_def valid_date_def)

lemma toordinal_mono:
  assumes "valid_date a" and "valid_date b"
    and "year a < year b \<or> (year a = year b \<and> (month a < month b \<or>
           (month a = month b \<and> day a \<le> day b)))"
  shows "toordinal a \<le> toordinal b"
proof -
  consider (year) "year a < year b"
    | (month) "year a = year b" "month a < month b"
    | (day) "year a = year b" "month a = month b" "day a \<le> day b"
    using assms(3) by blast
  then show ?thesis
  proof cases
    case year
    have "days_before_year (year a + 1) \<le> days_before_year (year b)"
    proof -
      have mono: "days_before_year y \<le> days_before_year (y + int k)" for y k
      proof (induction k)
        case 0
        then show ?case by simp
      next
        case (Suc k)
        have "days_before_year (y + int k) \<le> days_before_year (y + int k + 1)"
          by (simp add: days_before_year_Suc)
        with Suc show ?case
          by (simp add: algebra_simps)
      qed
      from year have "year b = (year a + 1) + int (nat (year b - (year a + 1)))"
        by simp
      with mono [of "year a + 1" "nat (year b - (year a + 1))"] show ?thesis
        by simp
    qed
    moreover have "toordinal a \<le> days_before_year (year a + 1)"
      using day_of_year_bound [OF assms(1)]
      by (simp add: toordinal_def days_before_year_Suc split: if_splits)
    moreover have "days_before_year (year b) \<le> toordinal b"
    proof -
      from assms(2) have "days_before_month (year b) 1 \<le> days_before_month (year b) (month b)"
        by (intro days_before_month_mono) (simp_all add: valid_date_def)
      then have "0 \<le> days_before_month (year b) (month b)"
        by (simp add: days_before_month_def)
      with assms(2) show ?thesis
        by (simp add: toordinal_def valid_date_def)
    qed
    ultimately show ?thesis by linarith
  next
    case month
    from assms(1) month(2)
    have "days_before_month (year a) (month a) + days_in_month (year a) (month a)
        \<le> days_before_month (year a) (month b)"
      by (intro days_before_month_step) (simp_all add: valid_date_def)
    with assms month(1) show ?thesis
      by (simp add: toordinal_def valid_date_def)
  next
    case day
    then show ?thesis
      by (simp add: toordinal_def)
  qed
qed

lemma occurrence_facts:
  assumes "occurrence tdy bd = Some occ"
  shows "valid_date occ \<and> month occ = month bd \<and> day occ = day bd \<and>
         (year occ = year tdy \<or> year occ = year tdy + 1)"
  using assms by (auto simp: occurrence_def Let_def split: if_splits)

lemma occurrence_not_before:
  assumes "valid_date tdy" and "occurrence tdy bd = Some occ"
  shows "toordinal tdy \<le> toordinal occ"
proof -
  from assms(2) have v: "valid_date occ"
    by (simp add: occurrence_facts)
  from assms(2)
  have "year tdy < year occ \<or> (year tdy = year occ \<and> (month tdy < month occ \<or>
           (month tdy = month occ \<and> day tdy \<le> day occ)))"
    by (auto simp: occurrence_def Let_def split: if_splits)
  with assms(1) v show ?thesis
    by (rule toordinal_mono)
qed

lemma congratulation_date_facts:
  assumes "valid_date occ"
  shows "(weekday occ = 5 \<longrightarrow>
            weekday (congratulation_date occ) = 0 \<and>
            toordinal (congratulation_date occ) = toordinal occ + 2) \<and>
         (weekday occ = 6 \<longrightarrow>
            weekday (congratulation_date occ) = 0 \<and>
            toordinal (congratulation_date occ) = toordinal occ + 1) \<and>
         (weekday occ \<noteq> 5 \<and> weekday occ \<noteq> 6 \<longrightarrow> congratulation_date occ = occ)"
proof -
  have one: "toordinal (next_day occ) = toordinal occ + 1"
    by (rule toordinal_next_day [OF assms])
  have two: "toordinal (next_day (next_day occ)) = toordinal occ + 2"
    using toordinal_next_day [OF valid_next_day [OF assms]] one by simp
  show ?thesis
  proof (intro conjI impI)
    assume sat: "weekday occ = 5"
    then show "toordinal (congratulation_date occ) = toordinal occ + 2"
      by (simp add: congratulation_date_def two)
    with sat show "weekday (congratulation_date occ) = 0"
      unfolding weekday_def by presburger
  next
    assume sun: "weekday occ = 6"
    then show "toordinal (congratulation_date occ) = toordinal occ + 1"
      by (simp add: congratulation_date_def one)
    with sun show "weekday (congratulation_date occ) = 0"
      unfolding weekday_def by presburger
  next
    assume "weekday occ \<noteq> 5 \<and> weekday occ \<noteq> 6"
    then show "congratulation_date occ = occ"
      by (simp add: congratulation_date_def)
  qed
qed

section \<open>The birthdays of the coming days\<close>

lemma members_Nil: "members [] = {}"
  by (simp add: members_def)

lemma members_Cons: "members ((d, rs) # gs) = Pair d ` set rs \<union> members gs"
  by (simp add: members_def)

lemma members_add_to_group: "members (add_to_group d r gs) = insert (d, r) (members gs)"
proof (induction gs)
  case Nil
  then show ?case
    by (simp add: members_Cons members_Nil)
next
  case (Cons g gs)
  obtain d' rs where g: "g = (d', rs)"
    by (cases g)
  from Cons show ?case
    by (auto simp: g members_Cons)
qed

lemma members_collect:
  "members (collect_birthdays tdy n rs gs)
     = members gs \<union>
       {(congratulation_date occ, r) | occ r. r \<in> set rs \<and> window_occurrence tdy n r = Some occ}"
proof (induction rs arbitrary: gs)
  case Nil
  then show ?case by simp
next
  case (Cons r rs)
  show ?case
  proof (cases "window_occurrence tdy n r")
    case None
    then have skip: "collect_birthdays tdy n (r # rs) gs = collect_birthdays tdy n rs gs"
      by (auto simp: window_occurrence_def in_window_def split: option.splits if_splits)
    from None show ?thesis
      unfolding skip Cons.IH by auto
  next
    case (Some occ)
    then have take: "collect_birthdays tdy n (r # rs) gs
        = collect_birthdays tdy n rs (add_to_group (congratulation_date occ) r gs)"
      by (auto simp: window_occurrence_def in_window_def split: option.splits if_splits)
    from Some show ?thesis
      unfolding take Cons.IH members_add_to_group by auto
  qed
qed

lemma members_get_birthdays:
  "members (get_birthdays_per_days tdy book n)
     = {(congratulation_date occ, r) | occ r.
          r \<in> snd ` set book \<and> window_occurrence tdy n r = Some occ}"
  by (simp add: get_birthdays_per_days_def members_collect members_Nil)

lemma window_occurrence_facts:
  assumes "window_occurrence tdy n r = Some occ"
  shows "\<exists>bd. birthday r = Some bd \<and> occurrence tdy bd = Some occ"
    and "toordinal tdy \<le> toordinal occ" and "toordinal occ \<le> toordinal tdy + n"
  using assms by (auto simp: window_occurrence_def split: option.splits if_splits)

text \<open>
  C1: a record is in the result of \<open>get_birthdays_per_days\<close> exactly when it is a
  record of the book whose birthday has an occurrence within the inclusive window from
  today to today plus \<open>n\<close> days, and it stands under the congratulation date of that
  occurrence; a record without a birthday is in no group. The occurrence has the
  month and day of the birthday in this year or the next, and from a valid today on
  it is never before today; its congratulation date is the Monday one or two days
  later when it falls on a Sunday or a Saturday, and the occurrence itself on a
  weekday.
\<close>

theorem birthdays_per_days_window:
  "((d, r) \<in> members (get_birthdays_per_days tdy book n) \<longleftrightarrow>
      r \<in> snd ` set book \<and>
      (\<exists>occ. window_occurrence tdy n r = Some occ \<and> d = congratulation_date occ)) \<and>
   (r \<in> snd ` members (get_birthdays_per_days tdy book n) \<longleftrightarrow>
      r \<in> snd ` set book \<and> window_occurrence tdy n r \<noteq> None) \<and>
   (birthday r = None \<longrightarrow> r \<notin> snd ` members (get_birthdays_per_days tdy book n)) \<and>
   (window_occurrence tdy n r = Some occ \<longrightarrow>
      (\<exists>bd. birthday r = Some bd \<and> occurrence tdy bd = Some occ \<and>
            month occ = month bd \<and> day occ = day bd) \<and>
      (year occ = year tdy \<or> year occ = year tdy + 1) \<and>
      valid_date occ \<and>
      toordinal tdy \<le> toordinal occ \<and> toordinal occ \<le> toordinal tdy + n \<and>
      (weekday occ = 5 \<longrightarrow>
         weekday (congratulation_date occ) = 0 \<and>
         toordinal (congratulation_date occ) = toordinal occ + 2) \<and>
      (weekday occ = 6 \<longrightarrow>
         weekday (congratulation_date occ) = 0 \<and>
         toordinal (congratulation_date occ) = toordinal occ + 1) \<and>
      (weekday occ \<noteq> 5 \<and> weekday occ \<noteq> 6 \<longrightarrow> congratulation_date occ = occ)) \<and>
   (valid_date tdy \<and> occurrence tdy bd' = Some occ' \<longrightarrow> toordinal tdy \<le> toordinal occ')"
proof (intro conjI)
  show "(d, r) \<in> members (get_birthdays_per_days tdy book n) \<longleftrightarrow>
      r \<in> snd ` set book \<and>
      (\<exists>occ. window_occurrence tdy n r = Some occ \<and> d = congratulation_date occ)"
    unfolding members_get_birthdays by blast
next
  show "r \<in> snd ` members (get_birthdays_per_days tdy book n) \<longleftrightarrow>
      r \<in> snd ` set book \<and> window_occurrence tdy n r \<noteq> None"
    unfolding members_get_birthdays by force
next
  show "birthday r = None \<longrightarrow> r \<notin> snd ` members (get_birthdays_per_days tdy book n)"
    unfolding members_get_birthdays by (force simp: window_occurrence_def)
next
  show "window_occurrence tdy n r = Some occ \<longrightarrow>
      (\<exists>bd. birthday r = Some bd \<and> occurrence tdy bd = Some occ \<and>
            month occ = month bd \<and> day occ = day bd) \<and>
      (year occ = year tdy \<or> year occ = year tdy + 1) \<and>
      valid_date occ \<and>
      toordinal tdy \<le> toordinal occ \<and> toordinal occ \<le> toordinal tdy + n \<and>
      (weekday occ = 5 \<longrightarrow>
         weekday (congratulation_date occ) = 0 \<and>
         toordinal (congratulation_date occ) = toordinal occ + 2) \<and>
      (weekday occ = 6 \<longrightarrow>
         weekday (congratulation_date occ) = 0 \<and>
         toordinal (congratulation_date occ) = toordinal occ + 1) \<and>
      (weekday occ \<noteq> 5 \<and> weekday occ \<noteq> 6 \<longrightarrow> congratulation_date occ = occ)"
  proof
    assume w: "window_occurrence tdy n r = Some occ"
    from window_occurrence_facts(1) [OF w]
    obtain bd where bd: "birthday r = Some bd" "occurrence tdy bd = Some occ"
      by blast
    note o = occurrence_facts [OF bd(2)]
    from o have v: "valid_date occ"
      by simp
    from bd o have "\<exists>bd. birthday r = Some bd \<and> occurrence tdy bd = Some occ \<and>
            month occ = month bd \<and> day occ = day bd"
      by simp
    moreover from o have "year occ = year tdy \<or> year occ = year tdy + 1"
      by simp
    moreover note v window_occurrence_facts(2,3) [OF w]
      congratulation_date_facts [OF v, THEN conjunct1]
      congratulation_date_facts [OF v, THEN conjunct2, THEN conjunct1]
      congratulation_date_facts [OF v, THEN conjunct2, THEN conjunct2]
    ultimately show "(\<exists>bd. birthday r = Some bd \<and> occurrence tdy bd = Some occ \<and>
            month occ = month bd \<and> day occ = day bd) \<and>
      (year occ = year tdy \<or> year occ = year tdy + 1) \<and>
      valid_date occ \<and>
      toordinal tdy \<le> toordinal occ \<and> toordinal occ \<le> toordinal tdy + n \<and>
      (weekday occ = 5 \<longrightarrow>
         weekday (congratulation_date occ) = 0 \<and>
         toordinal (congratulation_date occ) = toordinal occ + 2) \<and>
      (weekday occ = 6 \<longrightarrow>
         weekday (congratulation_date occ) = 0 \<and>
         toordinal (congratulation_date occ) = toordinal occ + 1) \<and>
      (weekday occ \<noteq> 5 \<and> weekday occ \<noteq> 6 \<longrightarrow> congratulation_date occ = occ)"
      by (intro conjI) assumption+
  qed
next
  show "valid_date tdy \<and> occurrence tdy bd' = Some occ' \<longrightarrow> toordinal tdy \<le> toordinal occ'"
    using occurrence_not_before [of tdy bd' occ'] by blast
qed

lemma sample_week:
  "get_birthdays_per_days \<lparr>year = 2024, month = 3, day = 3\<rparr> birthday_book 7
     = [(\<lparr>year = 2024, month = 3, day = 5\<rparr>, [carol_rec]),
        (\<lparr>year = 2024, month = 3, day = 11\<rparr>, [alice_rec])]"
  by code_simp

lemma sample_alice:
  "window_occurrence \<lparr>year = 2024, month = 3, day = 3\<rparr> 7 alice_rec
     = Some \<lparr>year = 2024, month = 3, day = 9\<rparr>"
  by code_simp

lemma sample_alice_in_book: "alice_rec \<in> snd ` set birthday_book"
  by (simp add: birthday_book_def)

lemma sample_today: "valid_date \<lparr>year = 2024, month = 3, day = 3\<rparr>"
  by code_simp

lemma sample_occurrence:
  "occurrence \<lparr>year = 2024, month = 3, day = 3\<rparr> \<lparr>year = 1990, month = 3, day = 9\<rparr>
     = Some \<lparr>year = 2024, month = 3, day = 9\<rparr>"
  by code_simp

lemma sample_saturday: "weekday \<lparr>year = 2024, month = 3, day = 9\<rparr> = 5"
  by code_simp

lemma sample_monday:
  "congratulation_date \<lparr>year = 2024, month = 3, day = 9\<rparr> = \<lparr>year = 2024, month = 3, day = 11\<rparr>"
  by code_simp

lemma sample_bob: "birthday bob_rec = None"
  by (simp add: bob_rec_def)

theorem birthdays_per_days_window_witness:
  "get_birthdays_per_days \<lparr>year = 2024, month = 3, day = 3\<rparr> birthday_book 7
     = [(\<lparr>year = 2024, month = 3, day = 5\<rparr>, [carol_rec]),
        (\<lparr>year = 2024, month = 3, day = 11\<rparr>, [alice_rec])] \<and>
   alice_rec \<in> snd ` set birthday_book \<and>
   window_occurrence \<lparr>year = 2024, month = 3, day = 3\<rparr> 7 alice_rec
     = Some \<lparr>year = 2024, month = 3, day = 9\<rparr> \<and>
   weekday \<lparr>year = 2024, month = 3, day = 9\<rparr> = 5 \<and>
   congratulation_date \<lparr>year = 2024, month = 3, day = 9\<rparr> = \<lparr>year = 2024, month = 3, day = 11\<rparr> \<and>
   (\<lparr>year = 2024, month = 3, day = 11\<rparr>, alice_rec)
     \<in> members (get_birthdays_per_days \<lparr>year = 2024, month = 3, day = 3\<rparr> birthday_book 7) \<and>
   weekday \<lparr>year = 2024, month = 3, day = 11\<rparr> = 0 \<and>
   toordinal \<lparr>year = 2024, month = 3, day = 11\<rparr>
     = toordinal \<lparr>year = 2024, month = 3, day = 9\<rparr> + 2 \<and>
   toordinal \<lparr>year = 2024, month = 3, day = 3\<rparr> \<le> toordinal \<lparr>year = 2024, month = 3, day = 9\<rparr> \<and>
   birthday bob_rec = None \<and>
   bob_rec \<notin> snd ` members
     (get_birthdays_per_days \<lparr>year = 2024, month = 3, day = 3\<rparr> birthday_book 7)"
proof -
  let ?tdy = "\<lparr>year = 2024, month = 3, day = 3\<rparr>"
  let ?occ = "\<lparr>year = 2024, month = 3, day = 9\<rparr>"
  let ?mon = "\<lparr>year = 2024, month = 3, day = 11\<rparr>"
  note a = birthdays_per_days_window
    [of ?mon alice_rec ?tdy birthday_book 7 ?occ "\<lparr>year = 1990, month = 3, day = 9\<rparr>" ?occ]
  note b = birthdays_per_days_window
    [of ?mon bob_rec ?tdy birthday_book 7 ?occ "\<lparr>year = 1990, month = 3, day = 9\<rparr>" ?occ]
  from a sample_alice_in_book sample_alice sample_monday
  have 1: "(?mon, alice_rec) \<in> members (get_birthdays_per_days ?tdy birthday_book 7)"
    by simp
  from a sample_alice sample_saturday
  have 2: "weekday (congratulation_date ?occ) = 0 \<and>
           toordinal (congratulation_date ?occ) = toordinal ?occ + 2"
    by blast
  from a sample_today sample_occurrence have 3: "toordinal ?tdy \<le> toordinal ?occ"
    by blast
  from b sample_bob
  have 4: "bob_rec \<notin> snd ` members (get_birthdays_per_days ?tdy birthday_book 7)"
    by blast
  from 2 have 5: "weekday ?mon = 0" "toordinal ?mon = toordinal ?occ + 2"
    by (simp_all add: sample_monday)
  from sample_week sample_alice_in_book sample_alice sample_saturday sample_monday 1 5 3
    sample_bob 4
  show ?thesis
    by (intro conjI) assumption+
qed

end
